theory Spec2Isabelle
  imports Main
begin

section \<open>Python primitives used by the conversion script\<close>

text \<open>
  The script \<^verbatim>\<open>convert_weights_working.py\<close> renames the keys of a PyTorch state dict.
  Only three things of Python are needed to follow it: the exceptions its expressions can
  raise, the decimal rendering of an integer inside an f-string, and \<^verbatim>\<open>range\<close>.
\<close>

datatype error = KeyError string | ValueError | IndexError

text \<open>
  \<^verbatim>\<open>f'{i}'\<close> renders a non-negative integer in decimal, most significant digit first
  and without leading zeros. Every integer the script formats is a loop index of
  \<^verbatim>\<open>range(num_blocks)\<close> or \<^verbatim>\<open>20 + (i - 1) * 12\<close> plus a small offset for
  such an index \<open>i \<ge> 1\<close>, hence a natural number.
\<close>

definition digit_char :: "nat \<Rightarrow> char" where
  "digit_char d = ''0123456789'' ! d"

fun str_nat :: "nat \<Rightarrow> string" where
  "str_nat n = (if n < 10 then [digit_char n] else str_nat (n div 10) @ [digit_char (n mod 10)])"

declare str_nat.simps [simp del]

text \<open>\<^verbatim>\<open>range(n)\<close> is empty for \<open>n \<le> 0\<close> and counts \<open>0, \<dots>, n - 1\<close> otherwise.\<close>

definition py_range :: "int \<Rightarrow> nat list" where
  "py_range n = [0..<nat n]"

section \<open>The conversion function\<close>

text \<open>
  A checkpoint (state dict) is a finite map from parameter names to tensors. The
  conversion never looks inside a tensor, so the tensor type is a parameter.
\<close>

type_synonym 't checkpoint = "string \<rightharpoonup> 't"

text \<open>
  Every statement of \<^verbatim>\<open>convert_to_tch_format\<close> after the first has the shape
  \<^verbatim>\<open>tch_dict[dst] = state_dict[src]\<close>. Such a statement is the pair \<open>(dst, src)\<close>; it
  raises \<^verbatim>\<open>KeyError(src)\<close> when \<open>src\<close> is absent and otherwise stores the tensor found
  under \<open>dst\<close>, replacing any earlier entry. A block of statements runs in order and stops
  at the first exception.
\<close>

type_synonym stmt = "string \<times> string"

fun exec :: "'t checkpoint \<Rightarrow> stmt list \<Rightarrow> 't checkpoint \<Rightarrow> error + 't checkpoint" where
  "exec state_dict [] tch_dict = Inr tch_dict"
| "exec state_dict ((dst, src) # rest) tch_dict =
     (case state_dict src of
        None \<Rightarrow> Inl (KeyError src)
      | Some v \<Rightarrow> exec state_dict rest (tch_dict(dst \<mapsto> v)))"

text \<open>Lines 12 to 17: the stem.\<close>

definition conv_block :: "stmt list" where
  "conv_block =
    [(''conv_block.weight'', ''convBlock1.conv1.weight''),
     (''conv_block.bias'', ''convBlock1.conv1.bias''),
     (''conv_block.weight__2'', ''convBlock1.bn1.weight''),
     (''conv_block.bias__3'', ''convBlock1.bn1.bias''),
     (''conv_block.running_mean'', ''convBlock1.bn1.running_mean''),
     (''conv_block.running_var'', ''convBlock1.bn1.running_var'')]"

text \<open>Lines 21 to 55: the body of the loop over the residual blocks, for index \<open>i\<close>.\<close>

definition res_block :: "nat \<Rightarrow> stmt list" where
  "res_block i =
    (let py_prefix = ''residualBlocks.'' @ str_nat i;
         tch_prefix = ''res_block_'' @ str_nat i
     in
       [(tch_prefix @ ''.weight'', py_prefix @ ''.conv1.weight''),
        (tch_prefix @ ''.bias'', py_prefix @ ''.conv1.bias''),
        (tch_prefix @ ''.running_mean'', py_prefix @ ''.bn1.running_mean''),
        (tch_prefix @ ''.running_var'', py_prefix @ ''.bn1.running_var'')] @
       (if i = 0 then
          [(tch_prefix @ ''.weight__8'', py_prefix @ ''.bn2.weight''),
           (tch_prefix @ ''.bias__9'', py_prefix @ ''.bn2.bias''),
           (tch_prefix @ ''.bias__12'', py_prefix @ ''.bn1.bias''),
           (tch_prefix @ ''.weight__13'', py_prefix @ ''.conv2.weight''),
           (tch_prefix @ ''.weight__14'', py_prefix @ ''.bn1.weight''),
           (tch_prefix @ ''.bias__15'', py_prefix @ ''.conv2.bias''),
           (tch_prefix @ ''.running_mean__16'', py_prefix @ ''.bn2.running_mean''),
           (tch_prefix @ ''.running_var__17'', py_prefix @ ''.bn2.running_var'')]
        else
          (let base = 20 + (i - 1) * 12 in
           [(tch_prefix @ ''.weight__'' @ str_nat base, py_prefix @ ''.bn2.weight''),
            (tch_prefix @ ''.bias__'' @ str_nat (base + 1), py_prefix @ ''.bn2.bias''),
            (tch_prefix @ ''.bias__'' @ str_nat (base + 4), py_prefix @ ''.bn1.bias''),
            (tch_prefix @ ''.weight__'' @ str_nat (base + 5), py_prefix @ ''.conv2.weight''),
            (tch_prefix @ ''.weight__'' @ str_nat (base + 6), py_prefix @ ''.bn1.weight''),
            (tch_prefix @ ''.bias__'' @ str_nat (base + 7), py_prefix @ ''.conv2.bias''),
            (tch_prefix @ ''.running_mean__'' @ str_nat (base + 8),
               py_prefix @ ''.bn2.running_mean''),
            (tch_prefix @ ''.running_var__'' @ str_nat (base + 9),
               py_prefix @ ''.bn2.running_var'')])))"

text \<open>Lines 58 to 79: the value head, chosen by \<^verbatim>\<open>num_blocks == 10\<close>.\<close>

definition value_head :: "int \<Rightarrow> stmt list" where
  "value_head num_blocks =
    (if num_blocks = 10 then
       [(''value_head.weight'', ''valueHead.conv1.weight''),
        (''value_head.bias'', ''valueHead.conv1.bias''),
        (''value_head.weight__128'', ''valueHead.bn1.weight''),
        (''value_head.bias__129'', ''valueHead.bn1.bias''),
        (''value_head.running_mean'', ''valueHead.bn1.running_mean''),
        (''value_head.running_var'', ''valueHead.bn1.running_var''),
        (''value_head.weight__133'', ''valueHead.fc1.weight''),
        (''value_head.bias__132'', ''valueHead.fc1.bias''),
        (''value_head.weight__135'', ''valueHead.fc2.weight''),
        (''value_head.bias__134'', ''valueHead.fc2.bias'')]
     else
       [(''value_head.weight'', ''valueHead.conv1.weight''),
        (''value_head.bias'', ''valueHead.conv1.bias''),
        (''value_head.weight__248'', ''valueHead.bn1.weight''),
        (''value_head.bias__249'', ''valueHead.bn1.bias''),
        (''value_head.running_mean'', ''valueHead.bn1.running_mean''),
        (''value_head.running_var'', ''valueHead.bn1.running_var''),
        (''value_head.weight__253'', ''valueHead.fc1.weight''),
        (''value_head.bias__252'', ''valueHead.fc1.bias''),
        (''value_head.weight__255'', ''valueHead.fc2.weight''),
        (''value_head.bias__254'', ''valueHead.fc2.bias'')])"

text \<open>Lines 82 to 99: the policy head, chosen by the same test.\<close>

definition policy_head :: "int \<Rightarrow> stmt list" where
  "policy_head num_blocks =
    (if num_blocks = 10 then
       [(''policy_head.weight'', ''policyHead.conv1.weight''),
        (''policy_head.bias'', ''policyHead.conv1.bias''),
        (''policy_head.weight__138'', ''policyHead.bn1.weight''),
        (''policy_head.bias__139'', ''policyHead.bn1.bias''),
        (''policy_head.running_mean'', ''policyHead.bn1.running_mean''),
        (''policy_head.running_var'', ''policyHead.bn1.running_var''),
        (''policy_head.weight__143'', ''policyHead.fc1.weight''),
        (''policy_head.bias__142'', ''policyHead.fc1.bias'')]
     else
       [(''policy_head.weight'', ''policyHead.conv1.weight''),
        (''policy_head.bias'', ''policyHead.conv1.bias''),
        (''policy_head.weight__258'', ''policyHead.bn1.weight''),
        (''policy_head.bias__259'', ''policyHead.bn1.bias''),
        (''policy_head.running_mean'', ''policyHead.bn1.running_mean''),
        (''policy_head.running_var'', ''policyHead.bn1.running_var''),
        (''policy_head.weight__263'', ''policyHead.fc1.weight''),
        (''policy_head.bias__262'', ''policyHead.fc1.bias'')])"

text \<open>
  The statements of one call in the order they run: the stem, the loop body for
  \<open>i = 0, \<dots>, num_blocks - 1\<close>, the value head, the policy head.
\<close>

definition statements :: "int \<Rightarrow> stmt list" where
  "statements num_blocks =
     conv_block @ concat (map res_block (py_range num_blocks)) @
     value_head num_blocks @ policy_head num_blocks"

text \<open>
  \<^verbatim>\<open>convert_to_tch_format(state_dict, num_blocks, num_filters)\<close> starts from the empty
  dict (line 9), runs the statements and returns the dict (line 101). The parameter
  \<open>num_filters\<close> is part of the signature and occurs nowhere in the body.
\<close>

definition convert_to_tch_format :: "'t checkpoint \<Rightarrow> int \<Rightarrow> int \<Rightarrow> error + 't checkpoint" where
  "convert_to_tch_format state_dict num_blocks num_filters =
     exec state_dict (statements num_blocks) Map.empty"

text \<open>
  When a statement raises, it is the first one, in program order, whose source name the
  state dict lacks.
\<close>

definition first_missing :: "'t checkpoint \<Rightarrow> stmt list \<Rightarrow> string option" where
  "first_missing state_dict ss = find (\<lambda>k. state_dict k = None) (map snd ss)"

text \<open>
  \<open>copied state_dict tch_dict dst src\<close>: the source has a tensor under \<open>src\<close> and the
  output holds that very tensor under \<open>dst\<close>.
\<close>

definition copied :: "'t checkpoint \<Rightarrow> 't checkpoint \<Rightarrow> string \<Rightarrow> string \<Rightarrow> bool" where
  "copied state_dict tch_dict dst src \<longleftrightarrow>
     state_dict src \<noteq> None \<and> tch_dict dst = state_dict src"

section \<open>Architecture detection in the script's main part\<close>

text \<open>
  Lines 117 and 118 read the topology off the loaded state dict:
  \<^verbatim>\<open>
  num_blocks = max([int(k.split('.')[1]) for k in state_dict.keys()
                    if k.startswith('residualBlocks.')]) + 1
  num_filters = state_dict['convBlock1.conv1.weight'].shape[0]
  \<close>
  The loaded dict keeps its keys in order, so it is an association list here; a tensor
  is its shape together with its contents, which stay opaque.
\<close>

record 'a tensor =
  shape :: "nat list"
  contents :: 'a

definition startswith :: "string \<Rightarrow> string \<Rightarrow> bool" where
  "startswith s p \<longleftrightarrow> take (length p) s = p"

text \<open>\<^verbatim>\<open>s.split(sep)\<close> for a one-character separator: always at least one piece.\<close>

fun split :: "char \<Rightarrow> string \<Rightarrow> string list" where
  "split sep [] = [[]]"
| "split sep (c # cs) =
     (if c = sep then [] # split sep cs
      else (case split sep cs of [] \<Rightarrow> [[c]] | p # ps \<Rightarrow> (c # p) # ps))"

text \<open>\<^verbatim>\<open>xs[n]\<close> for a non-negative literal index.\<close>

definition item :: "'a list \<Rightarrow> nat \<Rightarrow> error + 'a" where
  "item xs n = (if n < length xs then Inr (xs ! n) else Inl IndexError)"

text \<open>
  \<^verbatim>\<open>int(s)\<close> on an ASCII string: surrounding whitespace is dropped, one sign is allowed,
  and what remains must be decimal digits, where single underscores may stand between
  two digits; anything else raises \<^verbatim>\<open>ValueError\<close>. (Names are taken to be ASCII; the
  interpreter's optional limit on the number of digits is not part of the model.)
\<close>

definition is_space :: "char \<Rightarrow> bool" where
  "is_space c \<longleftrightarrow>
     c \<in> set [CHR 0x09, CHR 0x0A, CHR 0x0B, CHR 0x0C, CHR 0x0D,
              CHR 0x1C, CHR 0x1D, CHR 0x1E, CHR 0x1F, CHR 0x20]"

definition strip :: "string \<Rightarrow> string" where
  "strip s = rev (dropWhile is_space (rev (dropWhile is_space s)))"

definition is_digit :: "char \<Rightarrow> bool" where
  "is_digit c \<longleftrightarrow> c \<in> set ''0123456789''"

fun digits_ok :: "string \<Rightarrow> bool" where
  "digits_ok [] = False"
| "digits_ok [c] = is_digit c"
| "digits_ok (c # d # cs) =
     (is_digit c \<and> (if d = CHR ''_'' then digits_ok cs else digits_ok (d # cs)))"

definition digit_val :: "char \<Rightarrow> nat" where
  "digit_val c = of_char c - 48"

definition nat_of_digits :: "string \<Rightarrow> nat" where
  "nat_of_digits s = foldl (\<lambda>acc c. acc * 10 + digit_val c) 0 s"

definition py_int :: "string \<Rightarrow> error + int" where
  "py_int s =
     (let t = strip s;
          (negative, u) =
            (case t of
               [] \<Rightarrow> (False, t)
             | c # r \<Rightarrow>
                 if c = CHR ''-'' then (True, r)
                 else if c = CHR ''+'' then (False, r)
                 else (False, t))
      in if digits_ok u
         then (let n = int (nat_of_digits (filter (\<lambda>c. c \<noteq> CHR ''_'') u))
               in Inr (if negative then - n else n))
         else Inl ValueError)"

text \<open>The list comprehension: it visits the keys in order and the first exception ends it.\<close>

fun block_numbers :: "string list \<Rightarrow> error + int list" where
  "block_numbers [] = Inr []"
| "block_numbers (k # ks) =
     (if startswith k ''residualBlocks.'' then
        (case item (split CHR ''.'' k) 1 of
           Inl e \<Rightarrow> Inl e
         | Inr piece \<Rightarrow>
             (case py_int piece of
                Inl e \<Rightarrow> Inl e
              | Inr n \<Rightarrow>
                  (case block_numbers ks of
                     Inl e \<Rightarrow> Inl e
                   | Inr ns \<Rightarrow> Inr (n # ns))))
      else block_numbers ks)"

text \<open>\<^verbatim>\<open>max(xs)\<close> raises \<^verbatim>\<open>ValueError\<close> on the empty list.\<close>

definition py_max :: "int list \<Rightarrow> error + int" where
  "py_max xs = (case xs of [] \<Rightarrow> Inl ValueError | x # rest \<Rightarrow> Inr (fold max rest x))"

definition detect_architecture :: "(string \<times> 'a tensor) list \<Rightarrow> error + (int \<times> int)" where
  "detect_architecture state_dict =
     (case block_numbers (map fst state_dict) of
        Inl e \<Rightarrow> Inl e
      | Inr ns \<Rightarrow>
          (case py_max ns of
             Inl e \<Rightarrow> Inl e
           | Inr m \<Rightarrow>
               (let num_blocks = m + 1 in
                (case map_of state_dict ''convBlock1.conv1.weight'' of
                   None \<Rightarrow> Inl (KeyError ''convBlock1.conv1.weight'')
                 | Some t \<Rightarrow>
                     (case shape t of
                        [] \<Rightarrow> Inl IndexError
                      | n # _ \<Rightarrow> Inr (num_blocks, int n))))))"

section \<open>The specification's vocabulary\<close>

text \<open>
  The definitions of this section are written from the specification, not from the
  script; the theorems compare the two.

  The required source names: for the stem \<^verbatim>\<open>convBlock1\<close> a convolution \<^verbatim>\<open>conv1\<close> and a
  normalisation \<^verbatim>\<open>bn1\<close>; for every block index below \<open>n\<close> two convolutions and two
  normalisations; for each head \<^verbatim>\<open>conv1\<close> and \<^verbatim>\<open>bn1\<close>, and the fully connected layers
  \<^verbatim>\<open>fc1\<close>, \<^verbatim>\<open>fc2\<close> of the value head and \<^verbatim>\<open>fc1\<close> of the policy head. A normalisation
  has four tensors, every other layer a weight and a bias.
\<close>

definition layer_params :: "string \<Rightarrow> string list" where
  "layer_params layer =
     (if take 2 layer = ''bn'' then [''weight'', ''bias'', ''running_mean'', ''running_var'']
      else [''weight'', ''bias''])"

definition module_keys :: "string \<Rightarrow> string list \<Rightarrow> string list" where
  "module_keys name layers =
     concat (map (\<lambda>layer. map (\<lambda>p. name @ ''.'' @ layer @ ''.'' @ p) (layer_params layer)) layers)"

definition required_source_keys :: "nat \<Rightarrow> string list" where
  "required_source_keys n =
     module_keys ''convBlock1'' [''conv1'', ''bn1''] @
     concat (map (\<lambda>i. module_keys (''residualBlocks.'' @ str_nat i)
                         [''conv1'', ''bn1'', ''conv2'', ''bn2'']) [0..<n]) @
     module_keys ''valueHead'' [''conv1'', ''bn1'', ''fc1'', ''fc2''] @
     module_keys ''policyHead'' [''conv1'', ''bn1'', ''fc1'']"

text \<open>
  The destination names of a group: the first occurrence of a role is bare, a later one
  carries a numeric suffix. For a residual block the suffixed roles are, in the order of
  their numbers, weight, bias, bias, weight, weight, bias, running mean, running variance;
  the numbers are the literals \<open>8, 9, 12, 13, 14, 15, 16, 17\<close> for block \<open>0\<close> and
  \<open>base + 0, 1, 4, 5, 6, 7, 8, 9\<close> with \<open>base = 20 + (i - 1) * 12\<close> for a later block.
\<close>

definition suffixed :: "string \<Rightarrow> string \<Rightarrow> nat \<Rightarrow> string" where
  "suffixed grp role n = grp @ ''.'' @ role @ ''__'' @ str_nat n"

definition bare :: "string \<Rightarrow> string \<Rightarrow> string" where
  "bare grp role = grp @ ''.'' @ role"

definition block_suffixes :: "nat \<Rightarrow> nat list" where
  "block_suffixes i =
     (if i = 0 then [8, 9, 12, 13, 14, 15, 16, 17]
      else map (\<lambda>off. 20 + (i - 1) * 12 + off) [0, 1, 4, 5, 6, 7, 8, 9])"

definition block_roles :: "string list" where
  "block_roles =
     [''weight'', ''bias'', ''bias'', ''weight'', ''weight'', ''bias'',
      ''running_mean'', ''running_var'']"

definition block_keys :: "nat \<Rightarrow> string list" where
  "block_keys i =
     (let grp = ''res_block_'' @ str_nat i
      in map (bare grp) [''weight'', ''bias'', ''running_mean'', ''running_var''] @
         map (\<lambda>(role, n). suffixed grp role n) (zip block_roles (block_suffixes i)))"

definition stem_keys :: "string list" where
  "stem_keys =
     [''conv_block.weight'', ''conv_block.bias'', ''conv_block.weight__2'',
      ''conv_block.bias__3'', ''conv_block.running_mean'', ''conv_block.running_var'']"

text \<open>
  The two supported presets and their head tables. The value head has ten names, the
  policy head eight; the suffix numbers of the two presets differ.
\<close>

datatype preset = Preset_10x128 | Preset_20x256

fun blocks_of :: "preset \<Rightarrow> nat" where
  "blocks_of Preset_10x128 = 10"
| "blocks_of Preset_20x256 = 20"

fun filters_of :: "preset \<Rightarrow> nat" where
  "filters_of Preset_10x128 = 128"
| "filters_of Preset_20x256 = 256"

definition head_keys :: "nat \<Rightarrow> nat \<Rightarrow> string list" where
  "head_keys v p =
     [bare ''value_head'' ''weight'', bare ''value_head'' ''bias'',
      suffixed ''value_head'' ''weight'' v, suffixed ''value_head'' ''bias'' (v + 1),
      bare ''value_head'' ''running_mean'', bare ''value_head'' ''running_var'',
      suffixed ''value_head'' ''weight'' (v + 5), suffixed ''value_head'' ''bias'' (v + 4),
      suffixed ''value_head'' ''weight'' (v + 7), suffixed ''value_head'' ''bias'' (v + 6),
      bare ''policy_head'' ''weight'', bare ''policy_head'' ''bias'',
      suffixed ''policy_head'' ''weight'' p, suffixed ''policy_head'' ''bias'' (p + 1),
      bare ''policy_head'' ''running_mean'', bare ''policy_head'' ''running_var'',
      suffixed ''policy_head'' ''weight'' (p + 5), suffixed ''policy_head'' ''bias'' (p + 4)]"

fun preset_head_keys :: "preset \<Rightarrow> string list" where
  "preset_head_keys Preset_10x128 = head_keys 128 138"
| "preset_head_keys Preset_20x256 = head_keys 248 258"

definition destination_keys :: "preset \<Rightarrow> string list" where
  "destination_keys p =
     stem_keys @ concat (map block_keys [0..<blocks_of p]) @ preset_head_keys p"

text \<open>The residual-block indices that occur in names of the form \<^verbatim>\<open>residualBlocks.<i>.<rest>\<close>.\<close>

definition block_indices :: "string list \<Rightarrow> nat set" where
  "block_indices keys =
     {i. \<exists>rest. ''residualBlocks.'' @ str_nat i @ ''.'' @ rest \<in> set keys}"

text \<open>
  A test checkpoint: under each listed name it holds a tensor labelled with that name,
  so that the origin of every tensor of an output can be read off.
\<close>

definition named_checkpoint :: "string list \<Rightarrow> string checkpoint" where
  "named_checkpoint ks = map_of (map (\<lambda>k. (k, k)) ks)"

text \<open>A second test checkpoint over the same names, with tensors of another type.\<close>

definition sized_checkpoint :: "string list \<Rightarrow> nat checkpoint" where
  "sized_checkpoint ks = map_of (map (\<lambda>k. (k, length k)) ks)"

section \<open>Decimal rendering and statement blocks: basic facts\<close>

lemma digit_char_neq_dot: "d < 10 \<Longrightarrow> digit_char d \<noteq> CHR ''.''"
proof -
  assume "d < 10"
  then have "d \<in> {0,1,2,3,4,5,6,7,8,9}" by auto
  then show ?thesis by (auto simp: digit_char_def)
qed


lemma digit_val_digit_char: "d < 10 \<Longrightarrow> digit_val (digit_char d) = d"
proof -
  assume "d < 10"
  then have "d \<in> {0,1,2,3,4,5,6,7,8,9}" by auto
  then show ?thesis by (auto simp: digit_char_def digit_val_def)
qed


lemma nat_of_digits_snoc: "nat_of_digits (s @ [c]) = nat_of_digits s * 10 + digit_val c"
  by (simp add: nat_of_digits_def)

lemma nat_of_digits_str_nat: "nat_of_digits (str_nat n) = n"
proof (induction n rule: str_nat.induct)
  case (1 n)
  show ?case
  proof (cases "n < 10")
    case True
    then show ?thesis
      by (simp add: str_nat.simps[of n] nat_of_digits_def digit_val_digit_char)
  next
    case False
    with 1 show ?thesis
      by (simp add: str_nat.simps[of n] nat_of_digits_snoc digit_val_digit_char)
  qed
qed

lemma str_nat_inj [simp]: "str_nat m = str_nat n \<longleftrightarrow> m = n"
  by (metis nat_of_digits_str_nat)

lemma dot_notin_str_nat [simp]: "CHR ''.'' \<notin> set (str_nat n)"
proof (induction n rule: str_nat.induct)
  case (1 n)
  show ?case
  proof (cases "n < 10")
    case True
    then show ?thesis using digit_char_neq_dot[of n] by (auto simp add: str_nat.simps[of n])
  next
    case False
    with 1 have "CHR ''.'' \<notin> set (str_nat (n div 10))" by simp
    moreover have "digit_char (n mod 10) \<noteq> CHR ''.''" by (simp add: digit_char_neq_dot)
    ultimately show ?thesis using False by (auto simp add: str_nat.simps[of n])
  qed
qed

lemma sep_cancel:
  "c \<notin> set a \<Longrightarrow> c \<notin> set b \<Longrightarrow> a @ c # s = b @ c # t \<longleftrightarrow> a = b \<and> s = t"
proof (induction a arbitrary: b)
  case Nil
  then show ?case by (cases b) auto
next
  case (Cons x a)
  then show ?case by (cases b) auto
qed

lemma str_nat_dot_cancel [simp]:
  "str_nat i @ CHR ''.'' # s = str_nat j @ CHR ''.'' # t \<longleftrightarrow> i = j \<and> s = t"
  by (simp add: sep_cancel)

lemma str_nat_numeral_examples: "str_nat 0 = ''0''" "str_nat 17 = ''17''" "str_nat 248 = ''248''"
  by (simp_all add: str_nat.simps digit_char_def)

lemma distinct_fst_res_block: "distinct (map fst (res_block i))"
  by (simp add: res_block_def Let_def)

lemma distinct_snd_res_block: "distinct (map snd (res_block i))"
  by (simp add: res_block_def Let_def)


lemma exec_Inl_iff:
  "exec sd ss tch = Inl e \<longleftrightarrow> (\<exists>k. first_missing sd ss = Some k \<and> e = KeyError k)"
  by (induction ss arbitrary: tch) (auto simp: first_missing_def split: option.splits)

lemma exec_Inr_iff:
  "exec sd ss tch = Inr d \<longleftrightarrow>
     snd ` set ss \<subseteq> dom sd \<and>
     d = (\<lambda>k. case map_of (rev ss) k of None \<Rightarrow> tch k | Some src \<Rightarrow> sd src)"
proof (induction ss arbitrary: tch)
  case Nil
  then show ?case by auto
next
  case (Cons s ss)
  obtain dst src where s: "s = (dst, src)" by (cases s)
  show ?case
  proof (cases "sd src")
    case None
    then show ?thesis by (auto simp: s)
  next
    case (Some v)
    have f: "(\<lambda>k. case map_of (rev ss) k of None \<Rightarrow> (tch(dst \<mapsto> v)) k | Some src \<Rightarrow> sd src) =
          (\<lambda>k. case map_of (rev (s # ss)) k of None \<Rightarrow> tch k | Some src \<Rightarrow> sd src)"
      by (rule ext) (auto simp: s Some map_add_def split: option.splits)
    have e: "exec sd (s # ss) tch = exec sd ss (tch(dst \<mapsto> v))"
      by (simp add: s Some)
    have dm: "snd ` set (s # ss) \<subseteq> dom sd \<longleftrightarrow> snd ` set ss \<subseteq> dom sd"
      using Some by (auto simp: s)
    show ?thesis
      by (simp only: e dm Cons.IH f)
  qed
qed

lemma res_block_fst_form:
  "k \<in> fst ` set (res_block i) \<Longrightarrow> \<exists>s. k = ''res_block_'' @ str_nat i @ CHR ''.'' # s"
  by (auto simp: res_block_def Let_def split: if_splits)

lemma res_block_snd_form:
  "k \<in> snd ` set (res_block i) \<Longrightarrow> \<exists>s. k = ''residualBlocks.'' @ str_nat i @ CHR ''.'' # s"
  by (auto simp: res_block_def Let_def split: if_splits)

lemma fst_neq_res_block:
  "i \<noteq> j \<Longrightarrow> fst ` set (res_block i) \<inter> fst ` set (res_block j) = {}"
  using res_block_fst_form[of _ i] res_block_fst_form[of _ j] by fastforce

lemma snd_neq_res_block:
  "i \<noteq> j \<Longrightarrow> snd ` set (res_block i) \<inter> snd ` set (res_block j) = {}"
  using res_block_snd_form[of _ i] res_block_snd_form[of _ j] by fastforce

lemma hd_conv_block:
  "p \<in> set conv_block \<Longrightarrow> hd (fst p) = CHR ''c'' \<and> hd (snd p) = CHR ''c''"
  by (auto simp: conv_block_def)

lemma hd_res_block:
  "p \<in> set (res_block i) \<Longrightarrow> hd (fst p) = CHR ''r'' \<and> hd (snd p) = CHR ''r''"
  by (auto simp: res_block_def Let_def split: if_splits)

lemma hd_value_head:
  "p \<in> set (value_head nb) \<Longrightarrow> hd (fst p) = CHR ''v'' \<and> hd (snd p) = CHR ''v''"
  by (auto simp: value_head_def split: if_splits)

lemma hd_policy_head:
  "p \<in> set (policy_head nb) \<Longrightarrow> hd (fst p) = CHR ''p'' \<and> hd (snd p) = CHR ''p''"
  by (auto simp: policy_head_def split: if_splits)

lemma distinct_conv_block: "distinct (map fst conv_block)" "distinct (map snd conv_block)"
  by (simp_all add: conv_block_def)

lemma distinct_value_head: "distinct (map fst (value_head nb))" "distinct (map snd (value_head nb))"
  by (simp_all add: value_head_def)

lemma distinct_policy_head: "distinct (map fst (policy_head nb))" "distinct (map snd (policy_head nb))"
  by (simp_all add: policy_head_def)

lemma in_blocks:
  "p \<in> set (concat (map res_block [0..<n])) \<longleftrightarrow> (\<exists>i<n. p \<in> set (res_block i))"
  by auto

lemma blocks_Suc:
  "concat (map res_block [0..<Suc n]) = concat (map res_block [0..<n]) @ res_block n"
  by simp

lemma fst_blocks_disj:
  "fst ` set (concat (map res_block [0..<n])) \<inter> fst ` set (res_block n) = {}"
proof (rule ccontr)
  assume "\<not> ?thesis"
  then obtain p q where p: "p \<in> set (concat (map res_block [0..<n]))"
    and q: "q \<in> set (res_block n)" and e: "fst p = fst q"
    by (auto simp del: set_concat)
  from p obtain i where i: "i < n" "p \<in> set (res_block i)"
    unfolding in_blocks by blast
  from i(2) q e have "fst p \<in> fst ` set (res_block i) \<inter> fst ` set (res_block n)"
    by (metis IntI imageI)
  with fst_neq_res_block[of i n] i(1) show False by simp
qed

lemma snd_blocks_disj:
  "snd ` set (concat (map res_block [0..<n])) \<inter> snd ` set (res_block n) = {}"
proof (rule ccontr)
  assume "\<not> ?thesis"
  then obtain p q where p: "p \<in> set (concat (map res_block [0..<n]))"
    and q: "q \<in> set (res_block n)" and e: "snd p = snd q"
    by (auto simp del: set_concat)
  from p obtain i where i: "i < n" "p \<in> set (res_block i)"
    unfolding in_blocks by blast
  from i(2) q e have "snd p \<in> snd ` set (res_block i) \<inter> snd ` set (res_block n)"
    by (metis IntI imageI)
  with snd_neq_res_block[of i n] i(1) show False by simp
qed

lemma distinct_fst_blocks: "distinct (map fst (concat (map res_block [0..<n])))"
proof (induction n)
  case 0
  show ?case by simp
next
  case (Suc n)
  show ?case
    unfolding blocks_Suc map_append distinct_append set_map
    using Suc fst_blocks_disj[of n] distinct_fst_res_block[of n] by blast
qed

lemma distinct_snd_blocks: "distinct (map snd (concat (map res_block [0..<n])))"
proof (induction n)
  case 0
  show ?case by simp
next
  case (Suc n)
  show ?case
    unfolding blocks_Suc map_append distinct_append set_map
    using Suc snd_blocks_disj[of n] distinct_snd_res_block[of n] by blast
qed

lemma hd_blocks:
  assumes "p \<in> set (concat (map res_block [0..<n]))"
  shows "hd (fst p) = CHR ''r'' \<and> hd (snd p) = CHR ''r''"
proof -
  from assms obtain i where "p \<in> set (res_block i)"
    unfolding in_blocks by blast
  then show ?thesis by (rule hd_res_block)
qed

lemma disj_hd:
  assumes "\<forall>p\<in>A. hd (fst p) = a \<and> hd (snd p) = a"
    and "\<forall>p\<in>B. hd (fst p) = b \<and> hd (snd p) = b"
    and "a \<noteq> b"
  shows "fst ` A \<inter> fst ` B = {}" and "snd ` A \<inter> snd ` B = {}"
proof -
  show "fst ` A \<inter> fst ` B = {}"
  proof (rule ccontr)
    assume "fst ` A \<inter> fst ` B \<noteq> {}"
    then obtain p q where "p \<in> A" "q \<in> B" "fst p = fst q" by auto
    with assms show False by metis
  qed
  show "snd ` A \<inter> snd ` B = {}"
  proof (rule ccontr)
    assume "snd ` A \<inter> snd ` B \<noteq> {}"
    then obtain p q where "p \<in> A" "q \<in> B" "snd p = snd q" by auto
    with assms show False by metis
  qed
qed

lemma distinct_map_append4:
  assumes "distinct (map f A)" "distinct (map f B)" "distinct (map f C)" "distinct (map f D)"
    and "f ` set A \<inter> f ` set B = {}" "f ` set A \<inter> f ` set C = {}"
    and "f ` set A \<inter> f ` set D = {}" "f ` set B \<inter> f ` set C = {}"
    and "f ` set B \<inter> f ` set D = {}" "f ` set C \<inter> f ` set D = {}"
  shows "distinct (map f (A @ B @ C @ D))"
  using assms by (simp add: Int_Un_distrib Int_Un_distrib2 image_Un)

lemma tag_conv_block: "\<forall>p\<in>set conv_block. hd (fst p) = CHR ''c'' \<and> hd (snd p) = CHR ''c''"
  using hd_conv_block by blast

lemma tag_blocks:
  "\<forall>p\<in>set (concat (map res_block [0..<n])). hd (fst p) = CHR ''r'' \<and> hd (snd p) = CHR ''r''"
  using hd_blocks by blast

lemma tag_value_head:
  "\<forall>p\<in>set (value_head nb). hd (fst p) = CHR ''v'' \<and> hd (snd p) = CHR ''v''"
  using hd_value_head by blast

lemma tag_policy_head:
  "\<forall>p\<in>set (policy_head nb). hd (fst p) = CHR ''p'' \<and> hd (snd p) = CHR ''p''"
  using hd_policy_head by blast

lemma distinct_fst_statements: "distinct (map fst (statements nb))"
  unfolding statements_def py_range_def
  by (rule distinct_map_append4)
     (simp_all add: distinct_conv_block distinct_value_head distinct_policy_head
        distinct_fst_blocks
        disj_hd(1)[OF tag_conv_block tag_blocks] disj_hd(1)[OF tag_conv_block tag_value_head]
        disj_hd(1)[OF tag_conv_block tag_policy_head] disj_hd(1)[OF tag_blocks tag_value_head]
        disj_hd(1)[OF tag_blocks tag_policy_head] disj_hd(1)[OF tag_value_head tag_policy_head]
        del: set_concat)

lemma distinct_snd_statements: "distinct (map snd (statements nb))"
  unfolding statements_def py_range_def
  by (rule distinct_map_append4)
     (simp_all add: distinct_conv_block distinct_value_head distinct_policy_head
        distinct_snd_blocks
        disj_hd(2)[OF tag_conv_block tag_blocks] disj_hd(2)[OF tag_conv_block tag_value_head]
        disj_hd(2)[OF tag_conv_block tag_policy_head] disj_hd(2)[OF tag_blocks tag_value_head]
        disj_hd(2)[OF tag_blocks tag_policy_head] disj_hd(2)[OF tag_value_head tag_policy_head]
        del: set_concat)

lemma map_of_rev_distinct: "distinct (map fst xs) \<Longrightarrow> map_of (rev xs) = map_of xs"
proof (rule ext)
  fix k
  assume d: "distinct (map fst xs)"
  then have d': "distinct (map fst (rev xs))" by (simp add: rev_map[symmetric])
  show "map_of (rev xs) k = map_of xs k"
  proof (cases "map_of xs k")
    case None
    then have "k \<notin> fst ` set xs" by (simp add: map_of_eq_None_iff)
    then have "k \<notin> fst ` set (rev xs)" by simp
    then have "map_of (rev xs) k = None" by (simp only: map_of_eq_None_iff not_False_eq_True)
    with None show ?thesis by simp
  next
    case (Some v)
    then have "(k, v) \<in> set xs" by (rule map_of_SomeD)
    then have "(k, v) \<in> set (rev xs)" by simp
    with d' have "map_of (rev xs) k = Some v" by (rule map_of_is_SomeI)
    with Some show ?thesis by simp
  qed
qed

lemma convert_Inr_iff:
  "convert_to_tch_format sd nb nf = Inr d \<longleftrightarrow>
     snd ` set (statements nb) \<subseteq> dom sd \<and>
     d = (\<lambda>k. case map_of (statements nb) k of None \<Rightarrow> None | Some src \<Rightarrow> sd src)"
  unfolding convert_to_tch_format_def exec_Inr_iff
  by (simp add: map_of_rev_distinct[OF distinct_fst_statements])

lemma convert_Inl_iff:
  "convert_to_tch_format sd nb nf = Inl e \<longleftrightarrow>
     (\<exists>k. first_missing sd (statements nb) = Some k \<and> e = KeyError k)"
  unfolding convert_to_tch_format_def by (rule exec_Inl_iff)

lemma convert_lookup:
  assumes "convert_to_tch_format sd nb nf = Inr d" and "(dst, src) \<in> set (statements nb)"
  shows "d dst = sd src" and "sd src \<noteq> None"
proof -
  from assms(1) have sub: "snd ` set (statements nb) \<subseteq> dom sd"
    and d: "d = (\<lambda>k. case map_of (statements nb) k of None \<Rightarrow> None | Some src \<Rightarrow> sd src)"
    unfolding convert_Inr_iff by blast+
  have "map_of (statements nb) dst = Some src"
    using distinct_fst_statements assms(2) by (rule map_of_is_SomeI)
  then show "d dst = sd src" by (simp add: d)
  from sub assms(2) show "sd src \<noteq> None" by force
qed

lemma convert_dom:
  assumes "convert_to_tch_format sd nb nf = Inr d"
  shows "dom d = fst ` set (statements nb)"
proof (rule set_eqI)
  fix k
  from assms have sub: "snd ` set (statements nb) \<subseteq> dom sd"
    and d: "d = (\<lambda>k. case map_of (statements nb) k of None \<Rightarrow> None | Some src \<Rightarrow> sd src)"
    unfolding convert_Inr_iff by blast+
  show "k \<in> dom d \<longleftrightarrow> k \<in> fst ` set (statements nb)"
  proof (cases "map_of (statements nb) k")
    case None
    then have "k \<notin> fst ` set (statements nb)" by (simp add: map_of_eq_None_iff)
    moreover from None have "d k = None" by (simp add: d)
    ultimately show ?thesis by (simp add: domIff)
  next
    case (Some src)
    then have m: "(k, src) \<in> set (statements nb)" by (rule map_of_SomeD)
    then have "k \<in> fst ` set (statements nb)" by force
    moreover from m sub have "sd src \<noteq> None" by force
    with Some have "d k \<noteq> None" by (simp add: d)
    ultimately show ?thesis by (simp add: domIff)
  qed
qed

lemma convert_total:
  "snd ` set (statements nb) \<subseteq> dom sd \<Longrightarrow> \<exists>d. convert_to_tch_format sd nb nf = Inr d"
  unfolding convert_Inr_iff by simp

lemma dom_named_checkpoint: "dom (named_checkpoint ks) = set ks"
  by (simp add: named_checkpoint_def dom_map_of_conv_image_fst image_image)

lemma named_checkpoint_lookup: "k \<in> set ks \<Longrightarrow> named_checkpoint ks k = Some k"
proof -
  assume "k \<in> set ks"
  then have "named_checkpoint ks k \<noteq> None"
    using dom_named_checkpoint[of ks] by blast
  then obtain v where v: "named_checkpoint ks k = Some v" by blast
  then have "(k, v) \<in> set (map (\<lambda>k. (k, k)) ks)"
    unfolding named_checkpoint_def by (rule map_of_SomeD)
  then have "v = k" by auto
  with v show ?thesis by simp
qed

lemma snd_res_block:
  "snd ` set (res_block i) =
   set (module_keys (''residualBlocks.'' @ str_nat i) [''conv1'', ''bn1'', ''conv2'', ''bn2''])"
  by (cases "i = 0") (auto simp: res_block_def module_keys_def layer_params_def Let_def)

lemma snd_conv_block: "snd ` set conv_block = set (module_keys ''convBlock1'' [''conv1'', ''bn1''])"
  by (auto simp: conv_block_def module_keys_def layer_params_def)

lemma snd_value_head:
  "snd ` set (value_head nb) = set (module_keys ''valueHead'' [''conv1'', ''bn1'', ''fc1'', ''fc2''])"
  by (auto simp: value_head_def module_keys_def layer_params_def)

lemma snd_policy_head:
  "snd ` set (policy_head nb) = set (module_keys ''policyHead'' [''conv1'', ''bn1'', ''fc1''])"
  by (auto simp: policy_head_def module_keys_def layer_params_def)

lemma snd_blocks:
  "snd ` set (concat (map res_block [0..<n])) =
   set (concat (map (\<lambda>i. module_keys (''residualBlocks.'' @ str_nat i)
                         [''conv1'', ''bn1'', ''conv2'', ''bn2'']) [0..<n]))"
proof (induction n)
  case 0
  show ?case by simp
next
  case (Suc n)
  have "snd ` set (concat (map res_block [0..<Suc n])) =
        snd ` set (concat (map res_block [0..<n])) \<union> snd ` set (res_block n)"
    unfolding blocks_Suc by (simp only: set_append image_Un)
  also have "\<dots> = set (concat (map (\<lambda>i. module_keys (''residualBlocks.'' @ str_nat i)
                         [''conv1'', ''bn1'', ''conv2'', ''bn2'']) [0..<n])) \<union>
        set (module_keys (''residualBlocks.'' @ str_nat n) [''conv1'', ''bn1'', ''conv2'', ''bn2''])"
    by (simp only: Suc snd_res_block)
  also have "\<dots> = set (concat (map (\<lambda>i. module_keys (''residualBlocks.'' @ str_nat i)
                         [''conv1'', ''bn1'', ''conv2'', ''bn2'']) [0..<Suc n]))"
    by simp
  finally show ?case .
qed

lemma source_keys_of_statements:
  "snd ` set (statements nb) = set (required_source_keys (nat nb))"
  unfolding statements_def required_source_keys_def py_range_def
  by (simp only: set_append image_Un snd_conv_block snd_blocks snd_value_head snd_policy_head)

text \<open>
  C3. For every destination key of the output, the tensor stored under it is the tensor
  that the source holds under the name it was mapped from: whenever the conversion returns
  a dict \<open>d\<close> and \<open>d dst = Some t\<close>, some statement \<open>tch_dict[dst] = state_dict[src]\<close> of the
  run has \<open>state_dict src = Some t\<close>. The tensor type is arbitrary, so no tensor is
  inspected, altered or recomputed.
\<close>

theorem output_tensor_is_source_tensor:
  assumes "convert_to_tch_format state_dict num_blocks num_filters = Inr tch_dict"
    and "tch_dict dst = Some t"
  shows "\<exists>src. (dst, src) \<in> set (statements num_blocks) \<and> state_dict src = Some t"
proof -
  from assms(2) have "dst \<in> dom tch_dict" by blast
  then have "dst \<in> fst ` set (statements num_blocks)"
    by (simp only: convert_dom[OF assms(1)])
  then obtain src where m: "(dst, src) \<in> set (statements num_blocks)" by force
  from convert_lookup(1)[OF assms(1) m] assms(2) have "state_dict src = Some t" by simp
  with m show ?thesis by blast
qed

theorem output_tensor_is_source_tensor_witness:
  "\<exists>d. convert_to_tch_format (named_checkpoint (required_source_keys 1)) 1 128 = Inr d \<and>
       d ''res_block_0.weight__13'' = Some ''residualBlocks.0.conv2.weight'' \<and>
       (\<exists>src. (''res_block_0.weight__13'', src) \<in> set (statements 1) \<and>
          named_checkpoint (required_source_keys 1) src = Some ''residualBlocks.0.conv2.weight'')"
proof -
  let ?sd = "named_checkpoint (required_source_keys 1)"
  have "snd ` set (statements 1) \<subseteq> dom ?sd"
    by (simp only: source_keys_of_statements dom_named_checkpoint nat_one_as_int[symmetric] nat_int
        subset_refl)
  then obtain d where d: "convert_to_tch_format ?sd 1 128 = Inr d"
    using convert_total by blast
  have m: "(''res_block_0.weight__13'', ''residualBlocks.0.conv2.weight'') \<in> set (statements 1)"
    by (simp add: statements_def py_range_def res_block_def str_nat.simps digit_char_def)
  then have "''residualBlocks.0.conv2.weight'' \<in> set (required_source_keys 1)"
    using source_keys_of_statements[of 1] by force
  then have "?sd ''residualBlocks.0.conv2.weight'' = Some ''residualBlocks.0.conv2.weight''"
    by (rule named_checkpoint_lookup)
  with convert_lookup(1)[OF d m]
  have v: "d ''res_block_0.weight__13'' = Some ''residualBlocks.0.conv2.weight''" by simp
  from output_tensor_is_source_tensor[OF d v] d v show ?thesis by blast
qed

lemma dom_sized_checkpoint: "dom (sized_checkpoint ks) = set ks"
  by (simp add: sized_checkpoint_def dom_map_of_conv_image_fst image_image)

lemma sized_checkpoint_lookup: "k \<in> set ks \<Longrightarrow> sized_checkpoint ks k = Some (length k)"
proof -
  assume "k \<in> set ks"
  then have "sized_checkpoint ks k \<noteq> None"
    using dom_sized_checkpoint[of ks] by blast
  then obtain v where v: "sized_checkpoint ks k = Some v" by blast
  then have "(k, v) \<in> set (map (\<lambda>k. (k, length k)) ks)"
    unfolding sized_checkpoint_def by (rule map_of_SomeD)
  then have "v = length k" by auto
  with v show ?thesis by simp
qed

lemma first_missing_cong:
  fixes sd1 :: "'a checkpoint" and sd2 :: "'b checkpoint"
  assumes "dom sd1 = dom sd2"
  shows "first_missing sd1 ss = first_missing sd2 ss"
proof -
  have "(\<lambda>k. sd1 k = None) = (\<lambda>k. sd2 k = None)"
  proof (rule ext)
    fix k
    from assms have "k \<in> dom sd1 \<longleftrightarrow> k \<in> dom sd2" by simp
    then show "(sd1 k = None) = (sd2 k = None)" unfolding domIff by blast
  qed
  then show ?thesis unfolding first_missing_def by simp
qed

lemma required_keys_present_1:
  "snd ` set (statements 1) \<subseteq> set (required_source_keys 1)"
  using source_keys_of_statements[of 1] by simp

lemma stmt_conv_block_weight:
  "(''conv_block.weight'', ''convBlock1.conv1.weight'') \<in> set (statements nb)"
  by (simp add: statements_def conv_block_def)

text \<open>
  C8. The key mapping does not depend on the tensors. For two source checkpoints with the
  same key set (their tensors may even be of different types) and the same arguments,
  either both runs raise the same \<^verbatim>\<open>KeyError\<close>, or both return, the two outputs have the
  same key set, and every output key holds in each output the tensor that its own input
  has under one and the same source name.
\<close>

theorem key_mapping_independent_of_tensors:
  fixes sd1 :: "'a checkpoint" and sd2 :: "'b checkpoint"
  assumes "dom sd1 = dom sd2"
  shows "(\<exists>k. convert_to_tch_format sd1 num_blocks num_filters = Inl (KeyError k) \<and>
              convert_to_tch_format sd2 num_blocks num_filters = Inl (KeyError k)) \<or>
         (\<exists>d1 d2. convert_to_tch_format sd1 num_blocks num_filters = Inr d1 \<and>
              convert_to_tch_format sd2 num_blocks num_filters = Inr d2 \<and>
              dom d1 = dom d2 \<and>
              (\<forall>dst\<in>dom d1. \<exists>src. (dst, src) \<in> set (statements num_blocks) \<and>
                   d1 dst = sd1 src \<and> d2 dst = sd2 src))"
proof (cases "convert_to_tch_format sd1 num_blocks num_filters")
  case (Inl e)
  then obtain k where k: "first_missing sd1 (statements num_blocks) = Some k" "e = KeyError k"
    unfolding convert_Inl_iff by blast
  from k(1) have "first_missing sd2 (statements num_blocks) = Some k"
    by (simp only: first_missing_cong[OF assms])
  then have "convert_to_tch_format sd2 num_blocks num_filters = Inl (KeyError k)"
    unfolding convert_Inl_iff by blast
  with Inl k(2) show ?thesis by blast
next
  case (Inr d1)
  then have "snd ` set (statements num_blocks) \<subseteq> dom sd1"
    unfolding convert_Inr_iff by blast
  then have "snd ` set (statements num_blocks) \<subseteq> dom sd2" by (simp only: assms)
  then obtain d2 where d2: "convert_to_tch_format sd2 num_blocks num_filters = Inr d2"
    using convert_total by blast
  have doms: "dom d1 = dom d2"
    by (simp only: convert_dom[OF Inr] convert_dom[OF d2])
  have "\<exists>src. (dst, src) \<in> set (statements num_blocks) \<and> d1 dst = sd1 src \<and> d2 dst = sd2 src"
    if "dst \<in> dom d1" for dst
  proof -
    from that have "dst \<in> fst ` set (statements num_blocks)"
      by (simp only: convert_dom[OF Inr])
    then obtain src where m: "(dst, src) \<in> set (statements num_blocks)" by force
    from convert_lookup(1)[OF Inr m] convert_lookup(1)[OF d2 m] m show ?thesis by blast
  qed
  with Inr d2 doms show ?thesis by blast
qed

theorem key_mapping_independent_of_tensors_witness:
  "dom (named_checkpoint (required_source_keys 1)) = dom (sized_checkpoint (required_source_keys 1)) \<and>
   (\<exists>d1 d2. convert_to_tch_format (named_checkpoint (required_source_keys 1)) 1 128 = Inr d1 \<and>
      convert_to_tch_format (sized_checkpoint (required_source_keys 1)) 1 128 = Inr d2 \<and>
      dom d1 = dom d2 \<and>
      d1 ''conv_block.weight'' = Some ''convBlock1.conv1.weight'' \<and>
      d2 ''conv_block.weight'' = Some 23)"
proof -
  let ?A = "named_checkpoint (required_source_keys 1)"
  let ?B = "sized_checkpoint (required_source_keys 1)"
  have doms: "dom ?A = dom ?B"
    by (simp only: dom_named_checkpoint dom_sized_checkpoint)
  have "snd ` set (statements 1) \<subseteq> dom ?A"
    using required_keys_present_1 by (simp only: dom_named_checkpoint)
  then obtain d where d: "convert_to_tch_format ?A 1 128 = Inr d"
    using convert_total by blast
  from key_mapping_independent_of_tensors[OF doms, of 1 128] d
  obtain d1 d2 where r: "convert_to_tch_format ?A 1 128 = Inr d1"
    "convert_to_tch_format ?B 1 128 = Inr d2" "dom d1 = dom d2"
    by auto
  have k: "''convBlock1.conv1.weight'' \<in> set (required_source_keys 1)"
    using stmt_conv_block_weight[of 1] required_keys_present_1 by force
  have "d1 ''conv_block.weight'' = Some ''convBlock1.conv1.weight''"
    using convert_lookup(1)[OF r(1) stmt_conv_block_weight] named_checkpoint_lookup[OF k]
    by simp
  moreover have "d2 ''conv_block.weight'' = Some 23"
    using convert_lookup(1)[OF r(2) stmt_conv_block_weight] sized_checkpoint_lookup[OF k]
    by simp
  ultimately show ?thesis using doms r by blast
qed

lemma res_block_in_statements:
  assumes "int i < nb"
  shows "set (res_block i) \<subseteq> set (statements nb)"
proof
  fix p
  assume p: "p \<in> set (res_block i)"
  from assms have "i < nat nb" by linarith
  with p have "p \<in> set (concat (map res_block [0..<nat nb]))"
    unfolding in_blocks by blast
  then show "p \<in> set (statements nb)"
    unfolding statements_def py_range_def set_append by blast
qed

lemma find_Some_holds: "find P xs = Some x \<Longrightarrow> x \<in> set xs \<and> P x"
  by (induction xs) (simp_all split: if_splits)

lemma first_missing_Some:
  assumes "first_missing sd ss = Some k"
  shows "k \<in> snd ` set ss" and "sd k = None"
proof -
  from assms have "k \<in> set (map snd ss) \<and> sd k = None"
    unfolding first_missing_def by (rule find_Some_holds)
  then show "k \<in> snd ` set ss" and "sd k = None"
    by (simp_all only: set_map)
qed

lemma first_missing_None: "first_missing sd ss = None \<longleftrightarrow> snd ` set ss \<subseteq> dom sd"
  unfolding first_missing_def find_None_iff set_map by (auto simp: domIff)

lemma convert_cases:
  "(\<exists>d. convert_to_tch_format sd nb nf = Inr d \<and> snd ` set (statements nb) \<subseteq> dom sd) \<or>
   (\<exists>k. convert_to_tch_format sd nb nf = Inl (KeyError k) \<and>
        k \<in> snd ` set (statements nb) \<and> sd k = None)"
proof (cases "first_missing sd (statements nb)")
  case None
  then have sub: "snd ` set (statements nb) \<subseteq> dom sd" by (simp only: first_missing_None)
  from convert_total[OF sub, of nf] obtain d where "convert_to_tch_format sd nb nf = Inr d" ..
  with sub show ?thesis by (intro disjI1 exI[of _ d] conjI)
next
  case (Some k)
  have "convert_to_tch_format sd nb nf = Inl (KeyError k)"
    unfolding convert_Inl_iff using Some by (intro exI[of _ k] conjI refl)
  with first_missing_Some[OF Some] show ?thesis by (intro disjI2 exI[of _ k] conjI)
qed

text \<open>
  C6. When exactly one required source name \<open>k\<close> is absent from the source checkpoint
  (all other required names are present), the conversion raises \<^verbatim>\<open>KeyError(k)\<close>, Python's
  exception for a missing key, carrying that very name, and returns no output dict.
\<close>

theorem single_missing_key_is_named:
  assumes "k \<in> set (required_source_keys (nat num_blocks))"
    and "k \<notin> dom state_dict"
    and "set (required_source_keys (nat num_blocks)) - {k} \<subseteq> dom state_dict"
  shows "convert_to_tch_format state_dict num_blocks num_filters = Inl (KeyError k)"
proof -
  from convert_cases[of state_dict num_blocks num_filters]
  show ?thesis
  proof
    assume "\<exists>d. convert_to_tch_format state_dict num_blocks num_filters = Inr d \<and>
      snd ` set (statements num_blocks) \<subseteq> dom state_dict"
    then have "set (required_source_keys (nat num_blocks)) \<subseteq> dom state_dict"
      by (simp only: source_keys_of_statements) blast
    with assms(1,2) show ?thesis by blast
  next
    assume "\<exists>k'. convert_to_tch_format state_dict num_blocks num_filters = Inl (KeyError k') \<and>
      k' \<in> snd ` set (statements num_blocks) \<and> state_dict k' = None"
    then obtain k' where k': "convert_to_tch_format state_dict num_blocks num_filters = Inl (KeyError k')"
      "k' \<in> set (required_source_keys (nat num_blocks))" "state_dict k' = None"
      by (simp only: source_keys_of_statements) blast
    from k'(3) have "k' \<notin> dom state_dict" by (simp add: domIff)
    with k'(2) assms(3) have "k' = k" by blast
    with k'(1) show ?thesis by simp
  qed
qed

theorem single_missing_key_is_named_witness:
  "convert_to_tch_format
     (named_checkpoint (removeAll ''residualBlocks.2.bn2.running_var'' (required_source_keys 10)))
     10 128 = Inl (KeyError ''residualBlocks.2.bn2.running_var'')"
proof -
  let ?k = "''residualBlocks.2.bn2.running_var''"
  let ?sd = "named_checkpoint (removeAll ?k (required_source_keys 10))"
  have "(''res_block_2.running_var__41'', ?k) \<in> set (res_block 2)"
    by (simp add: res_block_def str_nat.simps digit_char_def)
  moreover have "set (res_block 2) \<subseteq> set (statements 10)"
    by (rule res_block_in_statements) simp
  ultimately have "?k \<in> snd ` set (statements 10)" by force
  then have 1: "?k \<in> set (required_source_keys (nat 10))"
    by (simp only: source_keys_of_statements)
  have n: "nat 10 = (10::nat)" by simp
  have 2: "?k \<notin> dom ?sd" by (simp only: dom_named_checkpoint set_removeAll) blast
  have 3: "set (required_source_keys (nat 10)) - {?k} \<subseteq> dom ?sd"
    by (simp only: dom_named_checkpoint set_removeAll n subset_refl)
  from single_missing_key_is_named[OF 1 2 3] show ?thesis .
qed

lemma full_checkpoint_converts:
  "\<exists>d. convert_to_tch_format (named_checkpoint (required_source_keys n)) (int n) nf = Inr d"
proof -
  have "snd ` set (statements (int n)) \<subseteq> dom (named_checkpoint (required_source_keys n))"
    by (simp only: source_keys_of_statements dom_named_checkpoint nat_int subset_refl)
  then show ?thesis by (rule convert_total)
qed

text \<open>
  C4 as stated fails: with \<open>numFilters = 64\<close> and a complete checkpoint for ten blocks the
  conversion returns a dict.
\<close>

theorem unsupported_filters_still_convert:
  "\<not> isl (convert_to_tch_format (named_checkpoint (required_source_keys 10)) 10 64)"
proof -
  from full_checkpoint_converts[of 10 64]
  obtain d where "convert_to_tch_format (named_checkpoint (required_source_keys 10)) (int 10) 64 = Inr d" ..
  then show ?thesis by simp
qed

text \<open>
  C4, amended. The argument \<open>num_filters\<close> is never consulted: with \<open>numFilters = 64\<close> the
  conversion does exactly what it does with any other value. It returns a dict whenever
  every required source name is present, and its only failure is a \<^verbatim>\<open>KeyError\<close> naming a
  required source name that the checkpoint lacks; there is no unknown-topology error.
\<close>

theorem num_filters_64_is_ignored:
  "convert_to_tch_format state_dict num_blocks 64 = convert_to_tch_format state_dict num_blocks num_filters \<and>
   (set (required_source_keys (nat num_blocks)) \<subseteq> dom state_dict \<longrightarrow>
      (\<exists>d. convert_to_tch_format state_dict num_blocks 64 = Inr d)) \<and>
   (\<forall>e. convert_to_tch_format state_dict num_blocks 64 = Inl e \<longrightarrow>
      (\<exists>k. e = KeyError k \<and> k \<in> set (required_source_keys (nat num_blocks)) \<and>
           k \<notin> dom state_dict))"
proof (intro conjI impI allI)
  show "convert_to_tch_format state_dict num_blocks 64 =
        convert_to_tch_format state_dict num_blocks num_filters"
    by (simp only: convert_to_tch_format_def)
next
  assume "set (required_source_keys (nat num_blocks)) \<subseteq> dom state_dict"
  then have "snd ` set (statements num_blocks) \<subseteq> dom state_dict"
    by (simp only: source_keys_of_statements)
  then show "\<exists>d. convert_to_tch_format state_dict num_blocks 64 = Inr d"
    by (rule convert_total)
next
  fix e
  assume e: "convert_to_tch_format state_dict num_blocks 64 = Inl e"
  from convert_cases[of state_dict num_blocks 64]
  show "\<exists>k. e = KeyError k \<and> k \<in> set (required_source_keys (nat num_blocks)) \<and>
           k \<notin> dom state_dict"
  proof
    assume "\<exists>d. convert_to_tch_format state_dict num_blocks 64 = Inr d \<and>
      snd ` set (statements num_blocks) \<subseteq> dom state_dict"
    with e show ?thesis by simp
  next
    assume "\<exists>k. convert_to_tch_format state_dict num_blocks 64 = Inl (KeyError k) \<and>
      k \<in> snd ` set (statements num_blocks) \<and> state_dict k = None"
    then obtain k where k: "convert_to_tch_format state_dict num_blocks 64 = Inl (KeyError k)"
      "k \<in> snd ` set (statements num_blocks)" "state_dict k = None" by blast
    from k(1) e have "e = KeyError k" by simp
    moreover from k(2) have "k \<in> set (required_source_keys (nat num_blocks))"
      by (simp only: source_keys_of_statements)
    moreover from k(3) have "k \<notin> dom state_dict" by (simp add: domIff)
    ultimately show ?thesis by blast
  qed
qed

theorem num_filters_64_is_ignored_witness:
  "(\<exists>d. convert_to_tch_format (named_checkpoint (required_source_keys 10)) 10 64 = Inr d) \<and>
   convert_to_tch_format (named_checkpoint (required_source_keys 10)) 10 64 =
   convert_to_tch_format (named_checkpoint (required_source_keys 10)) 10 128 \<and>
   (\<exists>k. convert_to_tch_format (Map.empty :: string checkpoint) 10 64 = Inl (KeyError k) \<and>
        k \<in> set (required_source_keys 10))"
proof -
  let ?sd = "named_checkpoint (required_source_keys 10)"
  note t = num_filters_64_is_ignored[of ?sd 10 128]
  have n: "nat 10 = (10::nat)" by simp
  have "set (required_source_keys (nat 10)) \<subseteq> dom ?sd"
    by (simp only: dom_named_checkpoint n subset_refl)
  with t have 1: "\<exists>d. convert_to_tch_format ?sd 10 64 = Inr d" by blast
  from t have 2: "convert_to_tch_format ?sd 10 64 = convert_to_tch_format ?sd 10 128" by blast
  let ?e = "Map.empty :: string checkpoint"
  note u = num_filters_64_is_ignored[of ?e 10 128]
  have "\<not> snd ` set (statements 10) \<subseteq> dom ?e"
    using stmt_conv_block_weight[of 10] by force
  then have "\<not> (\<exists>d. convert_to_tch_format ?e 10 64 = Inr d)"
    unfolding convert_Inr_iff by blast
  then obtain e where e: "convert_to_tch_format ?e 10 64 = Inl e"
    by (cases "convert_to_tch_format ?e 10 64") auto
  with u have "\<exists>k. e = KeyError k \<and> k \<in> set (required_source_keys (nat 10)) \<and> k \<notin> dom ?e"
    by blast
  then obtain k where k: "e = KeyError k" "k \<in> set (required_source_keys (nat 10))"
    by blast
  from k(2) have "k \<in> set (required_source_keys 10)" by (simp only: n)
  with e k(1) have 3: "\<exists>k. convert_to_tch_format ?e 10 64 = Inl (KeyError k) \<and>
        k \<in> set (required_source_keys 10)"
    by blast
  from 1 2 3 show ?thesis by blast
qed

lemma startswith_hd: "startswith k (c # p) \<Longrightarrow> hd k = c"
  unfolding startswith_def by (cases k) simp_all

lemma statements_split:
  "set (statements nb) = set conv_block \<union> set (concat (map res_block [0..<nat nb])) \<union>
     set (value_head nb) \<union> set (policy_head nb)"
  unfolding statements_def py_range_def set_append by blast

lemma value_head_startswith:
  "p \<in> set (value_head nb) \<Longrightarrow> startswith (fst p) ''value_head.''"
  by (auto simp: value_head_def startswith_def split: if_splits)

lemma policy_head_startswith:
  "p \<in> set (policy_head nb) \<Longrightarrow> startswith (fst p) ''policy_head.''"
  by (auto simp: policy_head_def startswith_def split: if_splits)

lemma head_statements:
  assumes "p \<in> set (statements nb)"
    and "startswith (fst p) ''value_head.'' \<or> startswith (fst p) ''policy_head.''"
  shows "p \<in> set (value_head nb) \<union> set (policy_head nb)"
proof -
  from assms(2) have h: "hd (fst p) = CHR ''v'' \<or> hd (fst p) = CHR ''p''"
    using startswith_hd by blast
  have "p \<notin> set conv_block"
  proof
    assume "p \<in> set conv_block"
    then have "hd (fst p) = CHR ''c''" using hd_conv_block by blast
    with h show False by simp
  qed
  moreover have "p \<notin> set (concat (map res_block [0..<nat nb]))"
  proof
    assume "p \<in> set (concat (map res_block [0..<nat nb]))"
    then have "hd (fst p) = CHR ''r''" using hd_blocks by blast
    with h show False by simp
  qed
  ultimately show ?thesis using assms(1) unfolding statements_split by blast
qed

lemma head_keys_of_output:
  assumes "convert_to_tch_format sd nb nf = Inr d"
  shows "{k \<in> dom d. startswith k ''value_head.'' \<or> startswith k ''policy_head.''} =
         fst ` (set (value_head nb) \<union> set (policy_head nb))"
proof (intro set_eqI iffI)
  fix k
  assume "k \<in> {k \<in> dom d. startswith k ''value_head.'' \<or> startswith k ''policy_head.''}"
  then have k: "k \<in> fst ` set (statements nb)"
    and s: "startswith k ''value_head.'' \<or> startswith k ''policy_head.''"
    by (simp_all only: convert_dom[OF assms] mem_Collect_eq)
  from k obtain p where p: "p \<in> set (statements nb)" "k = fst p" by blast
  from head_statements[OF p(1)] s p(2)
  show "k \<in> fst ` (set (value_head nb) \<union> set (policy_head nb))" by blast
next
  fix k
  assume "k \<in> fst ` (set (value_head nb) \<union> set (policy_head nb))"
  then obtain p where p: "p \<in> set (value_head nb) \<union> set (policy_head nb)" "k = fst p"
    by blast
  from p(1) have "p \<in> set (statements nb)" unfolding statements_split by blast
  then have "k \<in> dom d" using p(2) by (simp only: convert_dom[OF assms] image_eqI)
  moreover from p have "startswith k ''value_head.'' \<or> startswith k ''policy_head.''"
    using value_head_startswith policy_head_startswith by blast
  ultimately show "k \<in> {k \<in> dom d. startswith k ''value_head.'' \<or> startswith k ''policy_head.''}"
    by simp
qed

lemma str_nat_examples:
  "str_nat 128 = ''128''" "str_nat 129 = ''129''" "str_nat 132 = ''132''" "str_nat 133 = ''133''"
  "str_nat 134 = ''134''" "str_nat 135 = ''135''" "str_nat 138 = ''138''" "str_nat 139 = ''139''"
  "str_nat 142 = ''142''" "str_nat 143 = ''143''"
  "str_nat 248 = ''248''" "str_nat 249 = ''249''" "str_nat 252 = ''252''" "str_nat 253 = ''253''"
  "str_nat 254 = ''254''" "str_nat 255 = ''255''" "str_nat 258 = ''258''" "str_nat 259 = ''259''"
  "str_nat 262 = ''262''" "str_nat 263 = ''263''"
  by (simp_all add: str_nat.simps digit_char_def)

lemma head_keys_128:
  "fst ` (set (value_head 10) \<union> set (policy_head 10)) = set (head_keys 128 138)"
  by (auto simp: value_head_def policy_head_def head_keys_def bare_def suffixed_def
      str_nat_examples)

lemma head_keys_248:
  "nb \<noteq> 10 \<Longrightarrow> fst ` (set (value_head nb) \<union> set (policy_head nb)) = set (head_keys 248 258)"
  by (auto simp: value_head_def policy_head_def head_keys_def bare_def suffixed_def
      str_nat_examples)

lemma convert_copied:
  assumes "convert_to_tch_format sd nb nf = Inr d" and "(dst, src) \<in> set (statements nb)"
  shows "copied sd d dst src"
  unfolding copied_def using convert_lookup[OF assms] by simp

lemma heads_256_in_statements:
  assumes "nb \<noteq> 10"
  shows "set [(''value_head.weight__248'', ''valueHead.bn1.weight''),
              (''value_head.bias__249'', ''valueHead.bn1.bias''),
              (''value_head.weight__253'', ''valueHead.fc1.weight''),
              (''value_head.bias__252'', ''valueHead.fc1.bias''),
              (''value_head.weight__255'', ''valueHead.fc2.weight''),
              (''value_head.bias__254'', ''valueHead.fc2.bias''),
              (''policy_head.weight__258'', ''policyHead.bn1.weight''),
              (''policy_head.bias__259'', ''policyHead.bn1.bias''),
              (''policy_head.weight__263'', ''policyHead.fc1.weight''),
              (''policy_head.bias__262'', ''policyHead.fc1.bias'')] \<subseteq> set (statements nb)"
  unfolding statements_split using assms by (simp add: value_head_def policy_head_def)

text \<open>
  C10. The head table is selected by the test \<^verbatim>\<open>num_blocks == 10\<close> alone. The result does
  not depend on \<open>num_filters\<close> at all; for ten blocks the head keys of the output are those
  of the 10x128 table; and for every other \<open>num_blocks\<close> (such as 1 or 5, whatever
  \<open>num_filters\<close> is) the head keys of the output are exactly those of the 20x256 table, the
  suffixed ones holding the tensors of \<^verbatim>\<open>bn1\<close>, \<^verbatim>\<open>fc1\<close> and \<^verbatim>\<open>fc2\<close> under
  \<^verbatim>\<open>weight__248\<close>, \<^verbatim>\<open>bias__249\<close>, \<^verbatim>\<open>weight__253\<close>, \<^verbatim>\<open>bias__252\<close>, \<^verbatim>\<open>weight__255\<close>,
  \<^verbatim>\<open>bias__254\<close> (value head) and \<^verbatim>\<open>weight__258\<close>, \<^verbatim>\<open>bias__259\<close>, \<^verbatim>\<open>weight__263\<close>,
  \<^verbatim>\<open>bias__262\<close> (policy head).
\<close>

theorem head_table_chosen_by_num_blocks_alone:
  "convert_to_tch_format state_dict num_blocks num_filters =
     convert_to_tch_format state_dict num_blocks num_filters' \<and>
   (convert_to_tch_format state_dict num_blocks num_filters = Inr tch_dict \<longrightarrow>
      (num_blocks = 10 \<longrightarrow>
         {k \<in> dom tch_dict. startswith k ''value_head.'' \<or> startswith k ''policy_head.''} =
           set (head_keys 128 138)) \<and>
      (num_blocks \<noteq> 10 \<longrightarrow>
         {k \<in> dom tch_dict. startswith k ''value_head.'' \<or> startswith k ''policy_head.''} =
           set (head_keys 248 258) \<and>
         copied state_dict tch_dict ''value_head.weight__248'' ''valueHead.bn1.weight'' \<and>
         copied state_dict tch_dict ''value_head.bias__249'' ''valueHead.bn1.bias'' \<and>
         copied state_dict tch_dict ''value_head.weight__253'' ''valueHead.fc1.weight'' \<and>
         copied state_dict tch_dict ''value_head.bias__252'' ''valueHead.fc1.bias'' \<and>
         copied state_dict tch_dict ''value_head.weight__255'' ''valueHead.fc2.weight'' \<and>
         copied state_dict tch_dict ''value_head.bias__254'' ''valueHead.fc2.bias'' \<and>
         copied state_dict tch_dict ''policy_head.weight__258'' ''policyHead.bn1.weight'' \<and>
         copied state_dict tch_dict ''policy_head.bias__259'' ''policyHead.bn1.bias'' \<and>
         copied state_dict tch_dict ''policy_head.weight__263'' ''policyHead.fc1.weight'' \<and>
         copied state_dict tch_dict ''policy_head.bias__262'' ''policyHead.fc1.bias''))"
proof (intro conjI impI)
  show "convert_to_tch_format state_dict num_blocks num_filters =
     convert_to_tch_format state_dict num_blocks num_filters'"
    by (simp only: convert_to_tch_format_def)
next
  assume r: "convert_to_tch_format state_dict num_blocks num_filters = Inr tch_dict"
    and "num_blocks = 10"
  then show "{k \<in> dom tch_dict. startswith k ''value_head.'' \<or> startswith k ''policy_head.''} =
           set (head_keys 128 138)"
    by (simp only: head_keys_of_output[OF r] head_keys_128)
next
  assume r: "convert_to_tch_format state_dict num_blocks num_filters = Inr tch_dict"
    and n: "num_blocks \<noteq> 10"
  show "{k \<in> dom tch_dict. startswith k ''value_head.'' \<or> startswith k ''policy_head.''} =
           set (head_keys 248 258)"
    by (simp only: head_keys_of_output[OF r] head_keys_248[OF n])
next
  assume r: "convert_to_tch_format state_dict num_blocks num_filters = Inr tch_dict"
    and n: "num_blocks \<noteq> 10"
  note h = heads_256_in_statements[OF n]
  show "copied state_dict tch_dict ''value_head.weight__248'' ''valueHead.bn1.weight''"
    by (rule convert_copied[OF r]) (use h in simp)
  show "copied state_dict tch_dict ''value_head.bias__249'' ''valueHead.bn1.bias''"
    by (rule convert_copied[OF r]) (use h in simp)
  show "copied state_dict tch_dict ''value_head.weight__253'' ''valueHead.fc1.weight''"
    by (rule convert_copied[OF r]) (use h in simp)
  show "copied state_dict tch_dict ''value_head.bias__252'' ''valueHead.fc1.bias''"
    by (rule convert_copied[OF r]) (use h in simp)
  show "copied state_dict tch_dict ''value_head.weight__255'' ''valueHead.fc2.weight''"
    by (rule convert_copied[OF r]) (use h in simp)
  show "copied state_dict tch_dict ''value_head.bias__254'' ''valueHead.fc2.bias''"
    by (rule convert_copied[OF r]) (use h in simp)
  show "copied state_dict tch_dict ''policy_head.weight__258'' ''policyHead.bn1.weight''"
    by (rule convert_copied[OF r]) (use h in simp)
  show "copied state_dict tch_dict ''policy_head.bias__259'' ''policyHead.bn1.bias''"
    by (rule convert_copied[OF r]) (use h in simp)
  show "copied state_dict tch_dict ''policy_head.weight__263'' ''policyHead.fc1.weight''"
    by (rule convert_copied[OF r]) (use h in simp)
  show "copied state_dict tch_dict ''policy_head.bias__262'' ''policyHead.fc1.bias''"
    by (rule convert_copied[OF r]) (use h in simp)
qed

theorem head_table_chosen_by_num_blocks_alone_witness:
  "\<exists>d. convert_to_tch_format (named_checkpoint (required_source_keys 5)) 5 128 = Inr d \<and>
      {k \<in> dom d. startswith k ''value_head.'' \<or> startswith k ''policy_head.''} =
        set (head_keys 248 258) \<and>
      d ''value_head.weight__248'' = Some ''valueHead.bn1.weight'' \<and>
      d ''policy_head.bias__262'' = Some ''policyHead.fc1.bias''"
proof -
  let ?sd = "named_checkpoint (required_source_keys 5)"
  from full_checkpoint_converts[of 5 128]
  obtain d where d: "convert_to_tch_format ?sd 5 128 = Inr d" by auto
  have n: "(5::int) \<noteq> 10" by simp
  from head_table_chosen_by_num_blocks_alone[of ?sd 5 128 128 d] d n
  have s: "{k \<in> dom d. startswith k ''value_head.'' \<or> startswith k ''policy_head.''} =
        set (head_keys 248 258)"
    and c1: "copied ?sd d ''value_head.weight__248'' ''valueHead.bn1.weight''"
    and c2: "copied ?sd d ''policy_head.bias__262'' ''policyHead.fc1.bias''"
    by blast+
  from c1 have k1: "''valueHead.bn1.weight'' \<in> set (required_source_keys 5)"
    unfolding copied_def using dom_named_checkpoint[of "required_source_keys 5"] by blast
  from c2 have k2: "''policyHead.fc1.bias'' \<in> set (required_source_keys 5)"
    unfolding copied_def using dom_named_checkpoint[of "required_source_keys 5"] by blast
  from c1 named_checkpoint_lookup[OF k1]
  have v1: "d ''value_head.weight__248'' = Some ''valueHead.bn1.weight''"
    unfolding copied_def by simp
  from c2 named_checkpoint_lookup[OF k2]
  have v2: "d ''policy_head.bias__262'' = Some ''policyHead.fc1.bias''"
    unfolding copied_def by simp
  from d s v1 v2 show ?thesis by blast
qed

lemma startswith_iff: "startswith k p \<longleftrightarrow> (\<exists>r. k = p @ r)"
proof
  assume "startswith k p"
  then have "k = p @ drop (length p) k"
    unfolding startswith_def by (metis append_take_drop_id)
  then show "\<exists>r. k = p @ r" ..
next
  assume "\<exists>r. k = p @ r"
  then show "startswith k p" unfolding startswith_def by auto
qed

lemma str_nat_small:
  "str_nat 0 = ''0''" "str_nat 1 = ''1''" "str_nat 2 = ''2''" "str_nat 3 = ''3''"
  "str_nat 8 = ''8''" "str_nat 9 = ''9''" "str_nat 12 = ''12''" "str_nat 13 = ''13''"
  "str_nat 14 = ''14''" "str_nat 15 = ''15''" "str_nat 16 = ''16''" "str_nat 17 = ''17''"
  by (simp_all add: str_nat.simps digit_char_def)

lemma fst_res_block: "fst ` set (res_block i) = set (block_keys i)"
proof (cases "i = 0")
  case True
  then show ?thesis
    by (auto simp: res_block_def block_keys_def block_suffixes_def block_roles_def bare_def
        suffixed_def str_nat_small)
next
  case False
  then show ?thesis
    by (auto simp: res_block_def block_keys_def block_suffixes_def block_roles_def bare_def
        suffixed_def Let_def)
qed

lemma res_block_group:
  assumes "p \<in> set (res_block j)"
  shows "startswith (fst p) (''res_block_'' @ str_nat i @ ''.'') \<longleftrightarrow> j = i"
proof -
  from assms have "fst p \<in> fst ` set (res_block j)" by blast
  then obtain s where s: "fst p = ''res_block_'' @ str_nat j @ CHR ''.'' # s"
    using res_block_fst_form by blast
  show ?thesis unfolding startswith_iff s by simp
qed

lemma group_statements:
  assumes "p \<in> set (statements nb)"
    and "startswith (fst p) (''res_block_'' @ str_nat i @ ''.'')"
  shows "p \<in> set (res_block i)"
proof -
  from assms(2) have h: "hd (fst p) = CHR ''r''"
    using startswith_hd[of "fst p" "CHR ''r''"] by simp
  have "p \<notin> set conv_block"
  proof
    assume "p \<in> set conv_block"
    then have "hd (fst p) = CHR ''c''" using hd_conv_block by blast
    with h show False by simp
  qed
  moreover have "p \<notin> set (value_head nb)"
  proof
    assume "p \<in> set (value_head nb)"
    then have "hd (fst p) = CHR ''v''" using hd_value_head by blast
    with h show False by simp
  qed
  moreover have "p \<notin> set (policy_head nb)"
  proof
    assume "p \<in> set (policy_head nb)"
    then have "hd (fst p) = CHR ''p''" using hd_policy_head by blast
    with h show False by simp
  qed
  ultimately have "p \<in> set (concat (map res_block [0..<nat nb]))"
    using assms(1) unfolding statements_split by blast
  then obtain j where j: "p \<in> set (res_block j)" unfolding in_blocks by blast
  with assms(2) have "j = i" by (simp only: res_block_group)
  with j show ?thesis by simp
qed

lemma block_keys_of_output:
  assumes "convert_to_tch_format sd nb nf = Inr d" and "int i < nb"
  shows "{k \<in> dom d. startswith k (''res_block_'' @ str_nat i @ ''.'')} = set (block_keys i)"
proof (intro set_eqI iffI)
  fix k
  assume "k \<in> {k \<in> dom d. startswith k (''res_block_'' @ str_nat i @ ''.'')}"
  then have k: "k \<in> fst ` set (statements nb)"
    and s: "startswith k (''res_block_'' @ str_nat i @ ''.'')"
    by (simp_all only: convert_dom[OF assms(1)] mem_Collect_eq)
  from k obtain p where p: "p \<in> set (statements nb)" "k = fst p" by blast
  from s p(2) have "startswith (fst p) (''res_block_'' @ str_nat i @ ''.'')" by simp
  from group_statements[OF p(1) this] p(2) have "k \<in> fst ` set (res_block i)" by blast
  then show "k \<in> set (block_keys i)" by (simp only: fst_res_block)
next
  fix k
  assume "k \<in> set (block_keys i)"
  then have "k \<in> fst ` set (res_block i)" by (simp only: fst_res_block)
  then obtain p where p: "p \<in> set (res_block i)" "k = fst p" by blast
  from p(1) have "p \<in> set (statements nb)"
    using res_block_in_statements[OF assms(2)] by blast
  then have "k \<in> dom d" using p(2) by (simp only: convert_dom[OF assms(1)] image_eqI)
  moreover from p have "startswith k (''res_block_'' @ str_nat i @ ''.'')"
    by (simp only: res_block_group)
  ultimately show "k \<in> {k \<in> dom d. startswith k (''res_block_'' @ str_nat i @ ''.'')}"
    by simp
qed

lemma later_block_statements:
  assumes "1 \<le> i"
  shows "set [(suffixed (''res_block_'' @ str_nat i) ''weight'' (20 + (i - 1) * 12),
                 ''residualBlocks.'' @ str_nat i @ ''.bn2.weight''),
              (suffixed (''res_block_'' @ str_nat i) ''bias'' (20 + (i - 1) * 12 + 1),
                 ''residualBlocks.'' @ str_nat i @ ''.bn2.bias''),
              (suffixed (''res_block_'' @ str_nat i) ''bias'' (20 + (i - 1) * 12 + 4),
                 ''residualBlocks.'' @ str_nat i @ ''.bn1.bias''),
              (suffixed (''res_block_'' @ str_nat i) ''weight'' (20 + (i - 1) * 12 + 5),
                 ''residualBlocks.'' @ str_nat i @ ''.conv2.weight''),
              (suffixed (''res_block_'' @ str_nat i) ''weight'' (20 + (i - 1) * 12 + 6),
                 ''residualBlocks.'' @ str_nat i @ ''.bn1.weight''),
              (suffixed (''res_block_'' @ str_nat i) ''bias'' (20 + (i - 1) * 12 + 7),
                 ''residualBlocks.'' @ str_nat i @ ''.conv2.bias''),
              (suffixed (''res_block_'' @ str_nat i) ''running_mean'' (20 + (i - 1) * 12 + 8),
                 ''residualBlocks.'' @ str_nat i @ ''.bn2.running_mean''),
              (suffixed (''res_block_'' @ str_nat i) ''running_var'' (20 + (i - 1) * 12 + 9),
                 ''residualBlocks.'' @ str_nat i @ ''.bn2.running_var'')] \<subseteq> set (res_block i)"
  using assms by (simp add: res_block_def suffixed_def Let_def)

lemma first_block_statements:
  "set [(''res_block_0.weight__8'', ''residualBlocks.0.bn2.weight''),
        (''res_block_0.bias__9'', ''residualBlocks.0.bn2.bias''),
        (''res_block_0.bias__12'', ''residualBlocks.0.bn1.bias''),
        (''res_block_0.weight__13'', ''residualBlocks.0.conv2.weight''),
        (''res_block_0.weight__14'', ''residualBlocks.0.bn1.weight''),
        (''res_block_0.bias__15'', ''residualBlocks.0.conv2.bias''),
        (''res_block_0.running_mean__16'', ''residualBlocks.0.bn2.running_mean''),
        (''res_block_0.running_var__17'', ''residualBlocks.0.bn2.running_var'')] \<subseteq> set (res_block 0)"
  by (simp add: res_block_def str_nat_small)

lemma block_keys_0:
  "set (block_keys 0) =
   {''res_block_0.weight'', ''res_block_0.bias'', ''res_block_0.running_mean'',
    ''res_block_0.running_var'', ''res_block_0.weight__8'', ''res_block_0.bias__9'',
    ''res_block_0.bias__12'', ''res_block_0.weight__13'', ''res_block_0.weight__14'',
    ''res_block_0.bias__15'', ''res_block_0.running_mean__16'', ''res_block_0.running_var__17''}"
  by (simp add: block_keys_def block_suffixes_def block_roles_def bare_def suffixed_def
      str_nat_small)

text \<open>
  C2. In every output of the conversion, a residual block \<open>i\<close> with \<open>1 \<le> i < numBlocks\<close>
  gets its numeric suffixes from \<open>base = 20 + (i - 1) * 12\<close>: \<^verbatim>\<open>bn2.weight\<close> is stored
  under \<^verbatim>\<open>weight__base\<close>, \<^verbatim>\<open>bn2.bias\<close> under \<^verbatim>\<open>bias__(base+1)\<close>, \<^verbatim>\<open>bn1.bias\<close> under
  \<^verbatim>\<open>bias__(base+4)\<close>, \<^verbatim>\<open>conv2.weight\<close> under \<^verbatim>\<open>weight__(base+5)\<close>, \<^verbatim>\<open>bn1.weight\<close> under
  \<^verbatim>\<open>weight__(base+6)\<close>, \<^verbatim>\<open>conv2.bias\<close> under \<^verbatim>\<open>bias__(base+7)\<close>, \<^verbatim>\<open>bn2.running_mean\<close>
  under \<^verbatim>\<open>running_mean__(base+8)\<close> and \<^verbatim>\<open>bn2.running_var\<close> under
  \<^verbatim>\<open>running_var__(base+9)\<close>, and the keys of its group are exactly the four bare ones and
  these eight. Block \<open>0\<close> uses the literal suffixes 8, 9, 12, 13, 14, 15, 16, 17 for the
  same eight tensors, and the keys of its group are exactly the twelve listed.
\<close>

theorem block_suffixes_by_closed_form:
  assumes "convert_to_tch_format state_dict num_blocks num_filters = Inr tch_dict"
  shows
   "(\<forall>i. 1 \<le> i \<and> int i < num_blocks \<longrightarrow>
      (let base = 20 + (i - 1) * 12;
           dst = ''res_block_'' @ str_nat i;
           src = ''residualBlocks.'' @ str_nat i
       in copied state_dict tch_dict (suffixed dst ''weight'' base) (src @ ''.bn2.weight'') \<and>
          copied state_dict tch_dict (suffixed dst ''bias'' (base + 1)) (src @ ''.bn2.bias'') \<and>
          copied state_dict tch_dict (suffixed dst ''bias'' (base + 4)) (src @ ''.bn1.bias'') \<and>
          copied state_dict tch_dict (suffixed dst ''weight'' (base + 5)) (src @ ''.conv2.weight'') \<and>
          copied state_dict tch_dict (suffixed dst ''weight'' (base + 6)) (src @ ''.bn1.weight'') \<and>
          copied state_dict tch_dict (suffixed dst ''bias'' (base + 7)) (src @ ''.conv2.bias'') \<and>
          copied state_dict tch_dict (suffixed dst ''running_mean'' (base + 8))
            (src @ ''.bn2.running_mean'') \<and>
          copied state_dict tch_dict (suffixed dst ''running_var'' (base + 9))
            (src @ ''.bn2.running_var'') \<and>
          {k \<in> dom tch_dict. startswith k (dst @ ''.'')} = set (block_keys i))) \<and>
    (0 < num_blocks \<longrightarrow>
       copied state_dict tch_dict ''res_block_0.weight__8'' ''residualBlocks.0.bn2.weight'' \<and>
       copied state_dict tch_dict ''res_block_0.bias__9'' ''residualBlocks.0.bn2.bias'' \<and>
       copied state_dict tch_dict ''res_block_0.bias__12'' ''residualBlocks.0.bn1.bias'' \<and>
       copied state_dict tch_dict ''res_block_0.weight__13'' ''residualBlocks.0.conv2.weight'' \<and>
       copied state_dict tch_dict ''res_block_0.weight__14'' ''residualBlocks.0.bn1.weight'' \<and>
       copied state_dict tch_dict ''res_block_0.bias__15'' ''residualBlocks.0.conv2.bias'' \<and>
       copied state_dict tch_dict ''res_block_0.running_mean__16''
         ''residualBlocks.0.bn2.running_mean'' \<and>
       copied state_dict tch_dict ''res_block_0.running_var__17''
         ''residualBlocks.0.bn2.running_var'' \<and>
       {k \<in> dom tch_dict. startswith k ''res_block_0.''} =
         {''res_block_0.weight'', ''res_block_0.bias'', ''res_block_0.running_mean'',
          ''res_block_0.running_var'', ''res_block_0.weight__8'', ''res_block_0.bias__9'',
          ''res_block_0.bias__12'', ''res_block_0.weight__13'', ''res_block_0.weight__14'',
          ''res_block_0.bias__15'', ''res_block_0.running_mean__16'',
          ''res_block_0.running_var__17''})"
proof (intro conjI allI impI)
  fix i :: nat
  assume i: "1 \<le> i \<and> int i < num_blocks"
  then have sub: "set (res_block i) \<subseteq> set (statements num_blocks)"
    using res_block_in_statements by blast
  note l = later_block_statements[of i]
  have c: "copied state_dict tch_dict dst src" if "(dst, src) \<in> set (res_block i)" for dst src
    using convert_copied[OF assms] sub that by blast
  have g: "{k \<in> dom tch_dict. startswith k ((''res_block_'' @ str_nat i) @ ''.'')} =
      set (block_keys i)"
    using block_keys_of_output[OF assms, of i] i by simp
  show "let base = 20 + (i - 1) * 12;
           dst = ''res_block_'' @ str_nat i;
           src = ''residualBlocks.'' @ str_nat i
       in copied state_dict tch_dict (suffixed dst ''weight'' base) (src @ ''.bn2.weight'') \<and>
          copied state_dict tch_dict (suffixed dst ''bias'' (base + 1)) (src @ ''.bn2.bias'') \<and>
          copied state_dict tch_dict (suffixed dst ''bias'' (base + 4)) (src @ ''.bn1.bias'') \<and>
          copied state_dict tch_dict (suffixed dst ''weight'' (base + 5)) (src @ ''.conv2.weight'') \<and>
          copied state_dict tch_dict (suffixed dst ''weight'' (base + 6)) (src @ ''.bn1.weight'') \<and>
          copied state_dict tch_dict (suffixed dst ''bias'' (base + 7)) (src @ ''.conv2.bias'') \<and>
          copied state_dict tch_dict (suffixed dst ''running_mean'' (base + 8))
            (src @ ''.bn2.running_mean'') \<and>
          copied state_dict tch_dict (suffixed dst ''running_var'' (base + 9))
            (src @ ''.bn2.running_var'') \<and>
          {k \<in> dom tch_dict. startswith k (dst @ ''.'')} = set (block_keys i)"
    unfolding Let_def
    apply (intro conjI)
            apply (rule c, use l i in simp)
           apply (rule c, use l i in simp)
          apply (rule c, use l i in simp)
         apply (rule c, use l i in simp)
        apply (rule c, use l i in simp)
       apply (rule c, use l i in simp)
      apply (rule c, use l i in simp)
     apply (rule c, use l i in simp)
    apply (rule g)
    done
next
  assume z: "0 < num_blocks"
  then have sub: "set (res_block 0) \<subseteq> set (statements num_blocks)"
    using res_block_in_statements[of 0 num_blocks] by simp
  note f = first_block_statements
  have c: "copied state_dict tch_dict dst src" if "(dst, src) \<in> set (res_block 0)" for dst src
    using convert_copied[OF assms] sub that by blast
  show "copied state_dict tch_dict ''res_block_0.weight__8'' ''residualBlocks.0.bn2.weight''"
    by (rule c) (use f in simp)
  show "copied state_dict tch_dict ''res_block_0.bias__9'' ''residualBlocks.0.bn2.bias''"
    by (rule c) (use f in simp)
  show "copied state_dict tch_dict ''res_block_0.bias__12'' ''residualBlocks.0.bn1.bias''"
    by (rule c) (use f in simp)
  show "copied state_dict tch_dict ''res_block_0.weight__13'' ''residualBlocks.0.conv2.weight''"
    by (rule c) (use f in simp)
  show "copied state_dict tch_dict ''res_block_0.weight__14'' ''residualBlocks.0.bn1.weight''"
    by (rule c) (use f in simp)
  show "copied state_dict tch_dict ''res_block_0.bias__15'' ''residualBlocks.0.conv2.bias''"
    by (rule c) (use f in simp)
  show "copied state_dict tch_dict ''res_block_0.running_mean__16''
         ''residualBlocks.0.bn2.running_mean''"
    by (rule c) (use f in simp)
  show "copied state_dict tch_dict ''res_block_0.running_var__17''
         ''residualBlocks.0.bn2.running_var''"
    by (rule c) (use f in simp)
  have "{k \<in> dom tch_dict. startswith k (''res_block_'' @ str_nat 0 @ ''.'')} = set (block_keys 0)"
    using block_keys_of_output[OF assms, of 0] z by simp
  then show "{k \<in> dom tch_dict. startswith k ''res_block_0.''} =
         {''res_block_0.weight'', ''res_block_0.bias'', ''res_block_0.running_mean'',
          ''res_block_0.running_var'', ''res_block_0.weight__8'', ''res_block_0.bias__9'',
          ''res_block_0.bias__12'', ''res_block_0.weight__13'', ''res_block_0.weight__14'',
          ''res_block_0.bias__15'', ''res_block_0.running_mean__16'',
          ''res_block_0.running_var__17''}"
    by (simp only: block_keys_0) (simp add: str_nat_small)
qed

theorem block_suffixes_by_closed_form_witness:
  "\<exists>d. convert_to_tch_format (named_checkpoint (required_source_keys 3)) 3 128 = Inr d \<and>
      d ''res_block_2.weight__32'' = Some ''residualBlocks.2.bn2.weight'' \<and>
      d ''res_block_2.running_var__41'' = Some ''residualBlocks.2.bn2.running_var'' \<and>
      d ''res_block_0.weight__8'' = Some ''residualBlocks.0.bn2.weight''"
proof -
  let ?sd = "named_checkpoint (required_source_keys 3)"
  from full_checkpoint_converts[of 3 128]
  obtain d where d: "convert_to_tch_format ?sd 3 128 = Inr d" by auto
  note t = block_suffixes_by_closed_form[OF d]
  have named: "d dst = Some src" if "copied ?sd d dst src" for dst src
  proof -
    from that have "src \<in> dom ?sd" and e: "d dst = ?sd src"
      unfolding copied_def by blast+
    then have "src \<in> set (required_source_keys 3)" by (simp only: dom_named_checkpoint)
    with e show ?thesis by (simp only: named_checkpoint_lookup)
  qed
  from t[THEN conjunct1, THEN spec, of 2]
  have a: "copied ?sd d ''res_block_2.weight__32'' ''residualBlocks.2.bn2.weight''"
    and b: "copied ?sd d ''res_block_2.running_var__41'' ''residualBlocks.2.bn2.running_var''"
    by (simp_all add: Let_def suffixed_def str_nat.simps digit_char_def)
  from t[THEN conjunct2]
  have c: "copied ?sd d ''res_block_0.weight__8'' ''residualBlocks.0.bn2.weight''"
    by simp
  from d named[OF a] named[OF b] named[OF c] show ?thesis by blast
qed

lemma fst_conv_block: "fst ` set conv_block = set stem_keys"
  by (simp add: conv_block_def stem_keys_def)

lemma fst_blocks:
  "fst ` set (concat (map res_block [0..<n])) = set (concat (map block_keys [0..<n]))"
proof (induction n)
  case 0
  show ?case by simp
next
  case (Suc n)
  have "fst ` set (concat (map res_block [0..<Suc n])) =
        fst ` set (concat (map res_block [0..<n])) \<union> fst ` set (res_block n)"
    unfolding blocks_Suc by (simp only: set_append image_Un)
  also have "\<dots> = set (concat (map block_keys [0..<n])) \<union> set (block_keys n)"
    by (simp only: Suc fst_res_block)
  also have "\<dots> = set (concat (map block_keys [0..<Suc n]))"
    by simp
  finally show ?case .
qed

lemma destination_keys_of_statements:
  "fst ` set (statements (int (blocks_of p))) = set (destination_keys p)"
proof -
  have h: "fst ` (set (value_head (int (blocks_of p))) \<union> set (policy_head (int (blocks_of p)))) =
        set (preset_head_keys p)"
  proof (cases p)
    case Preset_10x128
    then show ?thesis using head_keys_128 by simp
  next
    case Preset_20x256
    then show ?thesis using head_keys_248[of 20] by simp
  qed
  have "fst ` set (statements (int (blocks_of p))) =
        fst ` set conv_block \<union> fst ` set (concat (map res_block [0..<blocks_of p])) \<union>
        fst ` (set (value_head (int (blocks_of p))) \<union> set (policy_head (int (blocks_of p))))"
    unfolding statements_split nat_int image_Un by blast
  also have "\<dots> = set (destination_keys p)"
    unfolding destination_keys_def set_append
    by (simp only: fst_conv_block fst_blocks h Un_assoc)
  finally show ?thesis .
qed

lemma length_res_block: "length (res_block i) = 12"
  by (simp add: res_block_def Let_def)

lemma length_blocks: "length (concat (map res_block [0..<n])) = 12 * n"
  by (induction n) (simp_all add: length_res_block)

lemma length_statements: "length (statements nb) = 12 * nat nb + 24"
  unfolding statements_def py_range_def length_append length_blocks
  by (simp add: conv_block_def value_head_def policy_head_def)

lemma card_output:
  assumes "convert_to_tch_format sd nb nf = Inr d"
  shows "card (dom d) = 12 * nat nb + 24"
proof -
  have "card (dom d) = card (set (map fst (statements nb)))"
    by (simp only: convert_dom[OF assms] set_map)
  also have "\<dots> = length (map fst (statements nb))"
    using distinct_fst_statements by (rule distinct_card)
  finally show ?thesis by (simp only: length_map length_statements)
qed

text \<open>
  C1. For each of the two supported presets, 10 blocks with 128 filters and 20 blocks with
  256 filters, the conversion of a source checkpoint whose key set is exactly the required
  source key set returns a dict whose key set is exactly the destination key set of the
  preset, nothing more and nothing less: 144 keys for the first preset and 264 for the
  second.
\<close>

theorem preset_output_key_set:
  assumes "dom state_dict = set (required_source_keys (blocks_of p))"
  shows "\<exists>tch_dict.
           convert_to_tch_format state_dict (int (blocks_of p)) (int (filters_of p)) = Inr tch_dict \<and>
           dom tch_dict = set (destination_keys p) \<and>
           card (dom tch_dict) = (case p of Preset_10x128 \<Rightarrow> 144 | Preset_20x256 \<Rightarrow> 264)"
proof -
  have "snd ` set (statements (int (blocks_of p))) \<subseteq> dom state_dict"
    by (simp only: source_keys_of_statements nat_int assms subset_refl)
  from convert_total[OF this, of "int (filters_of p)"]
  obtain d where d: "convert_to_tch_format state_dict (int (blocks_of p)) (int (filters_of p)) = Inr d" ..
  have 1: "dom d = set (destination_keys p)"
    by (simp only: convert_dom[OF d] destination_keys_of_statements)
  have 2: "card (dom d) = (case p of Preset_10x128 \<Rightarrow> 144 | Preset_20x256 \<Rightarrow> 264)"
    unfolding card_output[OF d] by (cases p) simp_all
  from d 1 2 show ?thesis by blast
qed

theorem preset_output_key_set_witness:
  "(\<exists>d. convert_to_tch_format (named_checkpoint (required_source_keys 10)) 10 128 = Inr d \<and>
       dom d = set (destination_keys Preset_10x128) \<and> card (dom d) = 144) \<and>
   (\<exists>d. convert_to_tch_format (named_checkpoint (required_source_keys 20)) 20 256 = Inr d \<and>
       dom d = set (destination_keys Preset_20x256) \<and> card (dom d) = 264)"
proof -
  have a: "dom (named_checkpoint (required_source_keys 10)) =
           set (required_source_keys (blocks_of Preset_10x128))"
    by (simp add: dom_named_checkpoint)
  have b: "dom (named_checkpoint (required_source_keys 20)) =
           set (required_source_keys (blocks_of Preset_20x256))"
    by (simp add: dom_named_checkpoint)
  from preset_output_key_set[OF a] preset_output_key_set[OF b] show ?thesis by simp
qed

lemma distinct_snd_unique:
  "distinct (map snd xs) \<Longrightarrow> (a, c) \<in> set xs \<Longrightarrow> (b, c) \<in> set xs \<Longrightarrow> a = b"
  by (induction xs) force+

lemma bij_betw_map_of:
  assumes "distinct (map fst xs)" and "distinct (map snd xs)"
  shows "bij_betw (\<lambda>k. the (map_of xs k)) (fst ` set xs) (snd ` set xs)"
proof -
  have m: "the (map_of xs (fst p)) = snd p" if "p \<in> set xs" for p
  proof -
    from that have "(fst p, snd p) \<in> set xs" by simp
    with assms(1) have "map_of xs (fst p) = Some (snd p)" by (rule map_of_is_SomeI)
    then show ?thesis by simp
  qed
  show ?thesis
    unfolding bij_betw_def
  proof
    show "inj_on (\<lambda>k. the (map_of xs k)) (fst ` set xs)"
    proof (rule inj_onI)
      fix k k'
      assume "k \<in> fst ` set xs" "k' \<in> fst ` set xs"
        and e: "the (map_of xs k) = the (map_of xs k')"
      then obtain p p' where p: "p \<in> set xs" "k = fst p" and p': "p' \<in> set xs" "k' = fst p'"
        by blast
      from e p p' have "snd p = snd p'" by (simp add: m)
      with p(1) p'(1) have "(fst p, snd p) \<in> set xs" "(fst p', snd p) \<in> set xs"
        by (metis prod.collapse)+
      with assms(2) have "fst p = fst p'" by (rule distinct_snd_unique)
      with p(2) p'(2) show "k = k'" by simp
    qed
    show "(\<lambda>k. the (map_of xs k)) ` fst ` set xs = snd ` set xs"
    proof (intro set_eqI iffI)
      fix v
      assume "v \<in> (\<lambda>k. the (map_of xs k)) ` fst ` set xs"
      then obtain p where "p \<in> set xs" "v = the (map_of xs (fst p))" by blast
      then show "v \<in> snd ` set xs" by (simp add: m)
    next
      fix v
      assume "v \<in> snd ` set xs"
      then obtain p where p: "p \<in> set xs" "v = snd p" by blast
      then have "v = the (map_of xs (fst p))" by (simp add: m)
      with p(1) show "v \<in> (\<lambda>k. the (map_of xs k)) ` fst ` set xs" by blast
    qed
  qed
qed

text \<open>
  C7. For every \<open>num_blocks\<close> (and whatever \<open>num_filters\<close> is) the statements of the
  conversion pair destination names with source names one to one: no destination name is
  written twice, every required source name is read by exactly one statement, and the
  map from a destination name to the source name it is filled from is a bijection between
  the keys of any output and the required source keys. Each output key holds the tensor
  of its own source name, so different output keys hold tensors of different source keys.
\<close>

theorem name_mapping_is_bijection:
  "distinct (map fst (statements num_blocks)) \<and>
   (\<forall>src\<in>set (required_source_keys (nat num_blocks)).
      \<exists>!dst. (dst, src) \<in> set (statements num_blocks)) \<and>
   (convert_to_tch_format state_dict num_blocks num_filters = Inr tch_dict \<longrightarrow>
      bij_betw (\<lambda>dst. the (map_of (statements num_blocks) dst))
        (dom tch_dict) (set (required_source_keys (nat num_blocks))) \<and>
      (\<forall>dst\<in>dom tch_dict.
         tch_dict dst = state_dict (the (map_of (statements num_blocks) dst))))"
proof (intro conjI ballI impI)
  show "distinct (map fst (statements num_blocks))" by (rule distinct_fst_statements)
next
  fix src
  assume "src \<in> set (required_source_keys (nat num_blocks))"
  then have "src \<in> snd ` set (statements num_blocks)"
    by (simp only: source_keys_of_statements)
  then obtain dst where dst: "(dst, src) \<in> set (statements num_blocks)" by force
  show "\<exists>!dst. (dst, src) \<in> set (statements num_blocks)"
  proof (rule ex1I[of _ dst])
    show "(dst, src) \<in> set (statements num_blocks)" by (rule dst)
  next
    fix dst'
    assume "(dst', src) \<in> set (statements num_blocks)"
    with distinct_snd_statements show "dst' = dst" using dst by (rule distinct_snd_unique)
  qed
next
  assume r: "convert_to_tch_format state_dict num_blocks num_filters = Inr tch_dict"
  from bij_betw_map_of[OF distinct_fst_statements distinct_snd_statements, of num_blocks]
  show "bij_betw (\<lambda>dst. the (map_of (statements num_blocks) dst))
        (dom tch_dict) (set (required_source_keys (nat num_blocks)))"
    by (simp only: convert_dom[OF r] source_keys_of_statements)
next
  fix dst
  assume r: "convert_to_tch_format state_dict num_blocks num_filters = Inr tch_dict"
    and "dst \<in> dom tch_dict"
  then have "dst \<in> fst ` set (statements num_blocks)" by (simp only: convert_dom[OF r])
  then obtain src where m: "(dst, src) \<in> set (statements num_blocks)" by force
  with distinct_fst_statements have "map_of (statements num_blocks) dst = Some src"
    by (rule map_of_is_SomeI)
  with convert_lookup(1)[OF r m]
  show "tch_dict dst = state_dict (the (map_of (statements num_blocks) dst))" by simp
qed

theorem name_mapping_is_bijection_witness:
  "\<exists>d. convert_to_tch_format (named_checkpoint (required_source_keys 10)) 10 128 = Inr d \<and>
      bij_betw (\<lambda>dst. the (map_of (statements 10) dst)) (dom d) (set (required_source_keys 10)) \<and>
      (\<exists>!dst. (dst, ''convBlock1.conv1.weight'') \<in> set (statements 10))"
proof -
  let ?sd = "named_checkpoint (required_source_keys 10)"
  from full_checkpoint_converts[of 10 128]
  obtain d where d: "convert_to_tch_format ?sd 10 128 = Inr d" by auto
  note t = name_mapping_is_bijection[of 10 ?sd 128 d]
  have n: "nat 10 = (10::nat)" by simp
  from t d have 1: "bij_betw (\<lambda>dst. the (map_of (statements 10) dst)) (dom d)
      (set (required_source_keys 10))"
    by (simp only: n)
  have "''convBlock1.conv1.weight'' \<in> snd ` set (statements 10)"
    using stmt_conv_block_weight[of 10] by force
  then have "''convBlock1.conv1.weight'' \<in> set (required_source_keys (nat 10))"
    by (simp only: source_keys_of_statements)
  with t have 2: "\<exists>!dst. (dst, ''convBlock1.conv1.weight'') \<in> set (statements 10)" by blast
  from d 1 2 show ?thesis by blast
qed

lemma block_keys_concat_1: "concat (map block_keys [0..<1]) = block_keys 0"
  by simp

lemma output_keys_one_block:
  assumes "convert_to_tch_format sd 1 nf = Inr d"
  shows "dom d = set stem_keys \<union> set (block_keys 0) \<union> set (head_keys 248 258)"
proof -
  have "fst ` set (statements 1) =
        fst ` set conv_block \<union> fst ` set (concat (map res_block [0..<1])) \<union>
        fst ` (set (value_head 1) \<union> set (policy_head 1))"
    unfolding statements_split image_Un by (simp add: Un_assoc)
  also have "\<dots> = set stem_keys \<union> set (block_keys 0) \<union> set (head_keys 248 258)"
    unfolding fst_conv_block fst_blocks block_keys_concat_1
    using head_keys_248[of 1] by simp
  finally show ?thesis by (simp only: convert_dom[OF assms])
qed

lemma weight_128_not_in_256_table:
  "''value_head.weight__128'' \<notin> set stem_keys \<union> set (block_keys 0) \<union> set (head_keys 248 258)"
  by (simp add: stem_keys_def block_keys_0 head_keys_def bare_def suffixed_def str_nat_examples)

text \<open>
  C5 as stated fails. For one block and a complete checkpoint the output has 36 keys, not
  35, and its heads carry the suffixes of the 20x256 table, since \<open>num_blocks\<close> is not 10:
  \<^verbatim>\<open>value_head.weight__128\<close> of the 10x128 table is not a key of the output.
\<close>

theorem one_block_output_has_36_keys_and_256_heads:
  "\<not> isl (convert_to_tch_format (named_checkpoint (required_source_keys 1)) 1 128) \<and>
   card (dom (projr (convert_to_tch_format (named_checkpoint (required_source_keys 1)) 1 128))) = 36 \<and>
   ''value_head.weight__128'' \<notin>
     dom (projr (convert_to_tch_format (named_checkpoint (required_source_keys 1)) 1 128)) \<and>
   ''value_head.weight__248'' \<in>
     dom (projr (convert_to_tch_format (named_checkpoint (required_source_keys 1)) 1 128))"
proof -
  let ?sd = "named_checkpoint (required_source_keys 1)"
  from full_checkpoint_converts[of 1 128]
  obtain d where d: "convert_to_tch_format ?sd 1 128 = Inr d" by auto
  have 1: "card (dom d) = 36" using card_output[OF d] by simp
  have 2: "''value_head.weight__128'' \<notin> dom d"
    unfolding output_keys_one_block[OF d] by (rule weight_128_not_in_256_table)
  have "(''value_head.weight__248'', ''valueHead.bn1.weight'') \<in> set (statements 1)"
    using heads_256_in_statements[of 1] by simp
  then have "''value_head.weight__248'' \<in> fst ` set (statements 1)" by force
  then have 3: "''value_head.weight__248'' \<in> dom d" by (simp only: convert_dom[OF d])
  from 1 2 3 show ?thesis unfolding d by simp
qed

text \<open>
  C5, amended. For one block and a source checkpoint that contains the stem, the tensors
  of residual block 0 and the head tensors, the output has exactly the six \<^verbatim>\<open>conv_block\<close>
  keys, the twelve \<^verbatim>\<open>res_block_0\<close> keys listed, and the ten value-head and eight
  policy-head keys of the 20x256 table (the table of every \<open>num_blocks\<close> other than 10):
  36 keys in all.
\<close>

theorem one_block_scenario:
  assumes "set (required_source_keys 1) \<subseteq> dom state_dict"
  shows "\<exists>tch_dict. convert_to_tch_format state_dict 1 num_filters = Inr tch_dict \<and>
     dom tch_dict =
       {''conv_block.weight'', ''conv_block.bias'', ''conv_block.weight__2'',
        ''conv_block.bias__3'', ''conv_block.running_mean'', ''conv_block.running_var''} \<union>
       {''res_block_0.weight'', ''res_block_0.bias'', ''res_block_0.weight__8'',
        ''res_block_0.bias__9'', ''res_block_0.running_mean'', ''res_block_0.running_var'',
        ''res_block_0.bias__12'', ''res_block_0.weight__13'', ''res_block_0.weight__14'',
        ''res_block_0.bias__15'', ''res_block_0.running_mean__16'',
        ''res_block_0.running_var__17''} \<union>
       set (head_keys 248 258) \<and>
     card (dom tch_dict) = 36"
proof -
  have "snd ` set (statements 1) \<subseteq> dom state_dict"
    using assms source_keys_of_statements[of 1] by simp
  from convert_total[OF this, of num_filters]
  obtain d where d: "convert_to_tch_format state_dict 1 num_filters = Inr d" ..
  have 1: "card (dom d) = 36" using card_output[OF d] by simp
  have 2: "dom d =
       {''conv_block.weight'', ''conv_block.bias'', ''conv_block.weight__2'',
        ''conv_block.bias__3'', ''conv_block.running_mean'', ''conv_block.running_var''} \<union>
       {''res_block_0.weight'', ''res_block_0.bias'', ''res_block_0.weight__8'',
        ''res_block_0.bias__9'', ''res_block_0.running_mean'', ''res_block_0.running_var'',
        ''res_block_0.bias__12'', ''res_block_0.weight__13'', ''res_block_0.weight__14'',
        ''res_block_0.bias__15'', ''res_block_0.running_mean__16'',
        ''res_block_0.running_var__17''} \<union>
       set (head_keys 248 258)"
    unfolding output_keys_one_block[OF d] block_keys_0 stem_keys_def by auto
  from d 1 2 show ?thesis by blast
qed

theorem one_block_scenario_witness:
  "\<exists>d. convert_to_tch_format (named_checkpoint (required_source_keys 1)) 1 128 = Inr d \<and>
     ''res_block_0.running_var__17'' \<in> dom d \<and> ''policy_head.weight__263'' \<in> dom d \<and>
     card (dom d) = 36"
proof -
  have "set (required_source_keys 1) \<subseteq> dom (named_checkpoint (required_source_keys 1))"
    by (simp only: dom_named_checkpoint subset_refl)
  from one_block_scenario[OF this, of 128]
  obtain d where d: "convert_to_tch_format (named_checkpoint (required_source_keys 1)) 1 128 = Inr d"
    and k: "dom d =
       {''conv_block.weight'', ''conv_block.bias'', ''conv_block.weight__2'',
        ''conv_block.bias__3'', ''conv_block.running_mean'', ''conv_block.running_var''} \<union>
       {''res_block_0.weight'', ''res_block_0.bias'', ''res_block_0.weight__8'',
        ''res_block_0.bias__9'', ''res_block_0.running_mean'', ''res_block_0.running_var'',
        ''res_block_0.bias__12'', ''res_block_0.weight__13'', ''res_block_0.weight__14'',
        ''res_block_0.bias__15'', ''res_block_0.running_mean__16'',
        ''res_block_0.running_var__17''} \<union>
       set (head_keys 248 258)"
    and c: "card (dom d) = 36"
    by blast
  have "''res_block_0.running_var__17'' \<in> dom d" unfolding k by simp
  moreover have "''policy_head.weight__263'' \<in> dom d"
    unfolding k by (simp add: head_keys_def suffixed_def str_nat_examples)
  ultimately show ?thesis using d c by blast
qed

end
